theory Spec2Isabelle
  imports Main "HOL-Library.Multiset" "HOL-Library.AList"
begin

section \<open>Python strings\<close>

text \<open>
  A Python \<open>str\<close> is modelled as a \<open>string\<close> whose characters are the code points
  below 256. The functions below are the \<open>str\<close> methods that \<open>checker.py\<close> calls, with
  Python's behaviour on that range.
\<close>

definition newline :: char where
  "newline = CHR 0x0A"

text \<open>\<open>str.isspace\<close> on one code point below 256.\<close>

definition isspace :: "char \<Rightarrow> bool" where
  "isspace c \<longleftrightarrow>
     c \<in> set [CHR 0x09, CHR 0x0A, CHR 0x0B, CHR 0x0C, CHR 0x0D,
               CHR 0x1C, CHR 0x1D, CHR 0x1E, CHR 0x1F, CHR 0x20, CHR 0x85, CHR 0xA0]"

text \<open>\<open>s.strip()\<close>\<close>

definition strip :: "string \<Rightarrow> string" where
  "strip s = rev (dropWhile isspace (rev (dropWhile isspace s)))"

text \<open>\<open>s.startswith(p)\<close>\<close>

definition startswith :: "string \<Rightarrow> string \<Rightarrow> bool" where
  "startswith s p \<longleftrightarrow> take (length p) s = p"

text \<open>\<open>sub in s\<close>\<close>

fun contains :: "string \<Rightarrow> string \<Rightarrow> bool" where
  "contains [] sub = (sub = [])"
| "contains (c # cs) sub = (startswith (c # cs) sub \<or> contains cs sub)"

text \<open>
  \<open>s.replace(old, new)\<close> for a non-empty \<open>old\<close>: every non-overlapping occurrence, from
  the left. The source only replaces the literals \<open>"SCORE:"\<close> and \<open>"ANALYSIS:"\<close>; for
  the empty \<open>old\<close> (where Python inserts \<open>new\<close> between all characters) the model
  leaves \<open>s\<close> as it is.
\<close>

fun replace :: "string \<Rightarrow> string \<Rightarrow> string \<Rightarrow> string" where
  "replace [] old new = []"
| "replace (c # cs) old new =
     (if old \<noteq> [] \<and> startswith (c # cs) old
      then new @ replace (drop (length old - 1) cs) old new
      else c # replace cs old new)"

text \<open>
  \<open>s.split(sep)\<close> for a non-empty \<open>sep\<close>; the result is never empty. Python raises
  \<open>ValueError\<close> for the empty separator, which the source never passes; the model then
  returns the empty list, which is no result of a real split.
\<close>

fun split :: "string \<Rightarrow> string \<Rightarrow> string list" where
  "split [] sep = (if sep = [] then [] else [[]])"
| "split (c # cs) sep =
     (if sep = [] then []
      else if startswith (c # cs) sep then [] # split (drop (length sep - 1) cs) sep
      else (case split cs sep of [] \<Rightarrow> [[c]] | l # ls \<Rightarrow> (c # l) # ls))"

text \<open>\<open>str(n)\<close> for an integer.\<close>

definition digit_char :: "nat \<Rightarrow> char" where
  "digit_char d = char_of (48 + d)"

fun str_nat :: "nat \<Rightarrow> string" where
  "str_nat n = (if n < 10 then [digit_char n] else str_nat (n div 10) @ [digit_char (n mod 10)])"

declare str_nat.simps [simp del]

definition str_int :: "int \<Rightarrow> string" where
  "str_int i = (if i < 0 then CHR ''-'' # str_nat (nat (- i)) else str_nat (nat i))"

text \<open>
  \<open>int(s)\<close> in base 10: surrounding whitespace is dropped, then an optional sign, then
  digits with single underscores allowed between them. \<open>None\<close> is \<open>ValueError\<close>.
  CPython also raises \<open>ValueError\<close> when there are more than \<open>int_max_str_digits\<close>
  digits (its default limit).
\<close>

definition isdigit :: "char \<Rightarrow> bool" where
  "isdigit c \<longleftrightarrow> 48 \<le> (of_char c :: nat) \<and> (of_char c :: nat) \<le> 57"

definition digit_value :: "char \<Rightarrow> int" where
  "digit_value c = int (of_char c) - 48"

fun int_literal_body :: "string \<Rightarrow> bool" where
  "int_literal_body [] = False"
| "int_literal_body [c] = isdigit c"
| "int_literal_body (c # d # cs) =
     (isdigit c \<and> (if d = CHR ''_'' then int_literal_body cs else int_literal_body (d # cs)))"

definition int_max_str_digits :: nat where
  "int_max_str_digits = 4300"

definition digits_value :: "string \<Rightarrow> int" where
  "digits_value ds = foldl (\<lambda>acc c. 10 * acc + digit_value c) 0 ds"

definition py_int :: "string \<Rightarrow> int option" where
  "py_int s =
     (let t = strip s;
          negative = (t \<noteq> [] \<and> hd t = CHR ''-'');
          body = (if t \<noteq> [] \<and> (hd t = CHR ''-'' \<or> hd t = CHR ''+'') then tl t else t);
          ds = filter (\<lambda>c. c \<noteq> CHR ''_'') body
      in if int_literal_body body \<and> length ds \<le> int_max_str_digits
         then Some (if negative then - digits_value ds else digits_value ds)
         else None)"

section \<open>The classifier adapter\<close>

text \<open>
  What \<open>query(prompt, options)\<close> of the external SDK hands to the \<open>async for\<close> loop: the
  messages it yields, then either the end of the stream or an exception. \<open>PyException\<close>
  is an exception whose class derives from \<open>Exception\<close>, \<open>PyBaseException\<close> one that
  derives from \<open>BaseException\<close> only (cancellation, interrupt); each carries \<open>str(e)\<close>.
  The stream is finite.
\<close>

datatype content_block = TextBlock string | OtherBlock

datatype message = AssistantMessage "content_block list" | OtherMessage

datatype py_exc = PyException string | PyBaseException string

type_synonym reply_stream = "message list \<times> py_exc option"

definition prompt :: "string \<Rightarrow> string \<Rightarrow> string" where
  "prompt code location =
     ''Analyze the following code/macro found in a spreadsheet for security risks.'' @ [newline] @
     [newline] @
     ''Location: '' @ location @ [newline] @
     [newline] @
     ''Code:'' @ [newline] @
     ''```'' @ [newline] @
     code @ [newline] @
     ''```'' @ [newline] @
     [newline] @
     ''Provide:'' @ [newline] @
     ''1. A security score from 1-10 where:'' @ [newline] @
     ''   - 1-3: Definitely malicious (file access, network calls, process execution, obfuscation)'' @ [newline] @
     ''   - 4-6: Suspicious (external references, dynamic execution, questionable patterns)'' @ [newline] @
     ''   - 7-9: Potentially risky but may be legitimate (common functions that could be misused)'' @ [newline] @
     ''   - 10: Safe (simple calculations, harmless formulas)'' @ [newline] @
     [newline] @
     ''2. A brief analysis explaining the score (2-3 sentences)'' @ [newline] @
     [newline] @
     ''Format your response EXACTLY as:'' @ [newline] @
     ''SCORE: <number>'' @ [newline] @
     ''ANALYSIS: <your analysis here>'' @ [newline]"

definition default_score :: int where
  "default_score = 5"

definition default_analysis :: string where
  "default_analysis = ''Unable to analyze''"

text \<open>The body of \<open>for line in lines\<close>; the state is \<open>(score, analysis)\<close>.\<close>

fun parse_line :: "int \<times> string \<Rightarrow> string \<Rightarrow> int \<times> string" where
  "parse_line (score, analysis) line =
     (if startswith line ''SCORE:'' then
        (case py_int (strip (replace line ''SCORE:'' '''')) of
           Some n \<Rightarrow> (max 1 (min 10 n), analysis)
         | None \<Rightarrow> (score, analysis))
      else if startswith line ''ANALYSIS:'' then
        (score, strip (replace line ''ANALYSIS:'' ''''))
      else (score, analysis))"

text \<open>The body of \<open>for block in message.content\<close>.\<close>

fun process_block :: "int \<times> string \<Rightarrow> content_block \<Rightarrow> int \<times> string" where
  "process_block st (TextBlock text) =
     (case foldl parse_line st (split (strip text) [newline]) of
        (score, analysis) \<Rightarrow>
          if analysis = default_analysis \<and> contains text ''ANALYSIS:''
          then (score, strip (split text ''ANALYSIS:'' ! 1))
          else (score, analysis))"
| "process_block st OtherBlock = st"

text \<open>The body of \<open>async for message in query(...)\<close>.\<close>

fun process_message :: "int \<times> string \<Rightarrow> message \<Rightarrow> int \<times> string" where
  "process_message st (AssistantMessage content) = foldl process_block st content"
| "process_message st OtherMessage = st"

text \<open>
  \<open>analyze_code_with_claude\<close>: \<open>Inr (score, analysis)\<close> is the returned tuple, \<open>Inl e\<close>
  an exception that leaves the function. The \<open>except Exception\<close> clause keeps the score
  parsed so far and overwrites the analysis.
\<close>

definition analyze_code_with_claude ::
  "(string \<Rightarrow> reply_stream) \<Rightarrow> string \<Rightarrow> string \<Rightarrow> py_exc + (int \<times> string)" where
  "analyze_code_with_claude query code location =
     (case query (prompt code location) of
        (messages, failure) \<Rightarrow>
          (case foldl process_message (default_score, default_analysis) messages of
             (score, analysis) \<Rightarrow>
               (case failure of
                  None \<Rightarrow> Inr (score, analysis)
                | Some (PyException e) \<Rightarrow> Inr (score, ''Error during analysis: '' @ e)
                | Some (PyBaseException e) \<Rightarrow> Inl (PyBaseException e))))"

section \<open>Paths, files and loaded documents\<close>

text \<open>
  A \<open>pathlib.Path\<close> is the list of its parts. \<open>name\<close> is the last part, \<open>suffix\<close> the
  part of the name from its last dot, when that dot is neither first nor last.
\<close>

type_synonym path = "string list"

definition path_name :: "path \<Rightarrow> string" where
  "path_name p = (if p = [] then [] else last p)"

definition path_suffix :: "path \<Rightarrow> string" where
  "path_suffix p =
     (let name = path_name p;
          k = length (takeWhile (\<lambda>c. c \<noteq> CHR ''.'') (rev name))
      in if k < length name \<and> 0 < length name - 1 - k \<and> 0 < k
         then drop (length name - 1 - k) name else [])"

text \<open>\<open>str.lower\<close> on code points below 256.\<close>

definition lower_char :: "char \<Rightarrow> char" where
  "lower_char c =
     (let n = (of_char c :: nat)
      in if (65 \<le> n \<and> n \<le> 90) \<or> (192 \<le> n \<and> n \<le> 222 \<and> n \<noteq> 215)
         then char_of (n + 32) else c)"

definition lower :: "string \<Rightarrow> string" where
  "lower s = map lower_char s"

text \<open>
  \<open>for x in xs: body\<close> over a state, where the body may raise: \<open>Inl (e, s)\<close> is the
  exception together with the state reached when it was raised.
\<close>

fun for_loop :: "('s \<Rightarrow> 'a \<Rightarrow> (py_exc \<times> 's) + 's) \<Rightarrow> 'a list \<Rightarrow> 's \<Rightarrow> (py_exc \<times> 's) + 's" where
  "for_loop body [] s = Inr s"
| "for_loop body (x # xs) s =
     (case body s x of Inl e \<Rightarrow> Inl e | Inr s' \<Rightarrow> for_loop body xs s')"

text \<open>
  \<open>openpyxl.utils.get_column_letter\<close> (external library): column letters for the indices
  1 to 18278 (\<open>A\<close> to \<open>ZZZ\<close>), \<open>ValueError\<close> for any other index.
\<close>

function letters_loop :: "nat \<Rightarrow> string \<Rightarrow> string" where
  "letters_loop col_idx letters =
     (if col_idx = 0 then letters
      else if col_idx mod 26 = 0
           then letters_loop (col_idx div 26 - 1) (letters @ [char_of (26 + 64 :: nat)])
           else letters_loop (col_idx div 26) (letters @ [char_of (col_idx mod 26 + 64)]))"
  by pat_completeness auto
termination
  by (relation "measure fst") (auto intro: diff_less_mono)

declare letters_loop.simps [simp del]

definition get_column_letter :: "int \<Rightarrow> py_exc + string" where
  "get_column_letter idx =
     (if 1 \<le> idx \<and> idx \<le> 18278 then Inr (rev (letters_loop (nat idx) []))
      else Inl (PyException (''Invalid column index '' @ str_int idx)))"

text \<open>
  The cell-grid container as \<open>openpyxl\<close> loads it: the sheets in the order of
  \<open>sheetnames\<close>; in a sheet the dictionary of the cells by coordinate (\<open>"A1"\<close>) and the
  extent that \<open>iter_rows()\<close> walks (rows 1 to \<open>ws_max_row\<close>, columns 1 to
  \<open>ws_max_column\<close>; both 0 for an empty sheet).
\<close>

datatype cell_value = NoValue | StrValue string | OtherValue

record xl_cell =
  xl_value :: cell_value
  xl_fill :: "string option"

record worksheet =
  ws_max_row :: nat
  ws_max_column :: nat
  ws_cells :: "(string \<times> xl_cell) list"

type_synonym xl_workbook = "(string \<times> worksheet) list"

text \<open>
  The composite-document container as \<open>odfpy\<close> loads it: the \<open>Table\<close> elements, each with
  its \<open>TableRow\<close> elements, each with its \<open>TableCell\<close> elements, in document order. A cell
  has the attributes the checker reads or writes and its \<open>text:p\<close> children.
\<close>

record ods_cell =
  numbercolumnsrepeated :: "string option"
  formula :: "string option"
  stylename :: "string option"
  paragraphs :: "string list"

record ods_table =
  table_name :: "string option"
  table_rows :: "ods_cell list list"

text \<open>
  \<open>automaticstyles\<close> are the names of the automatic styles of the document, and
  \<open>styles_used_elsewhere\<close> the style names that elements other than the table cells
  refer to.
\<close>

record ods_document =
  tables :: "ods_table list"
  automaticstyles :: "string list"
  styles_used_elsewhere :: "string list"

text \<open>
  \<open>doc.save\<close> of \<open>odfpy\<close> writes, of the automatic styles, only those that an element of
  the content refers to.
\<close>

definition cell_styles :: "ods_document \<Rightarrow> string list" where
  "cell_styles doc =
     List.map_filter stylename (concat (concat (map table_rows (tables doc))))"

definition saved_document :: "ods_document \<Rightarrow> ods_document" where
  "saved_document doc =
     doc\<lparr>automaticstyles :=
           filter (\<lambda>s. s \<in> set (cell_styles doc) \<or> s \<in> set (styles_used_elsewhere doc))
             (automaticstyles doc)\<rparr>"

text \<open>
  A file is an Excel container (with the VBA modules \<open>(vba_filename, vba_code)\<close> that
  \<open>oletools\<close> extracts from it), an ODS container, or something else. Loaded documents
  are objects: a reference is an index into the list of the objects allocated so far.

  A path names a file: \<open>locate\<close> gives the identity of the file that a path leads to, and
  \<open>files\<close> the content of each file that exists. Two paths lead to the same file exactly
  when \<open>locate\<close> gives them the same identity, as \<open>a.xlsx\<close> and \<open>sub/../a.xlsx\<close>, or a
  link and its target. The output path of the sanitizer is taken to name a regular file
  or nothing yet, not a directory.
\<close>

datatype file_content =
    ExcelFile xl_workbook "(string \<times> string) list"
  | OdsFile ods_document
  | OtherFile

record world =
  locate :: "path \<Rightarrow> nat"
  files :: "nat \<Rightarrow> file_content option"
  workbooks :: "xl_workbook list"
  ods_docs :: "ods_document list"
  has_oletools :: bool
  has_odfpy :: bool

definition read_file :: "world \<Rightarrow> path \<Rightarrow> file_content option" where
  "read_file w p = files w (locate w p)"

definition write_file :: "world \<Rightarrow> path \<Rightarrow> file_content \<Rightarrow> world" where
  "write_file w p content = w\<lparr>files := (files w)(locate w p \<mapsto> content)\<rparr>"

definition same_file :: "world \<Rightarrow> path \<Rightarrow> path \<Rightarrow> bool" where
  "same_file w p q \<longleftrightarrow> locate w p = locate w q"

section \<open>Findings and the checker\<close>

record MacroFinding =
  item_number :: int
  location :: string
  code :: string
  score :: int
  analysis :: string
  cell_reference :: "(string \<times> string \<times> int) option"

datatype file_kind = Excel | Ods

record MacroChecker =
  input_file :: path
  remove_threshold :: int
  findings :: "MacroFinding list"
  workbook :: "nat option"
  ods_doc :: "nat option"
  item_counter :: int
  file_type :: "file_kind option"

text \<open>\<open>MacroChecker(input_file, remove_threshold)\<close>\<close>

definition new_checker :: "path \<Rightarrow> int \<Rightarrow> MacroChecker" where
  "new_checker p threshold =
     \<lparr>input_file = p, remove_threshold = threshold, findings = [], workbook = None,
      ods_doc = None, item_counter = 0, file_type = None\<rparr>"

text \<open>
  \<open>load_spreadsheet\<close>: the returned flag, the world and the checker afterwards. A file
  that the library cannot parse raises inside the \<open>try\<close>, after \<open>file_type\<close> was set.
\<close>

definition load_spreadsheet :: "world \<Rightarrow> MacroChecker \<Rightarrow> bool \<times> world \<times> MacroChecker" where
  "load_spreadsheet w st =
     (let suffix = lower (path_suffix (input_file st))
      in if suffix \<in> set [''.xlsx'', ''.xlsm''] then
           (let st1 = st\<lparr>file_type := Some Excel\<rparr>
            in case read_file w (input_file st) of
                 Some (ExcelFile wb vba) \<Rightarrow>
                   (True, w\<lparr>workbooks := workbooks w @ [wb]\<rparr>,
                    st1\<lparr>workbook := Some (length (workbooks w))\<rparr>)
               | _ \<Rightarrow> (False, w, st1))
         else if suffix = ''.ods'' then
           (if \<not> has_odfpy w then (False, w, st)
            else
              (let st1 = st\<lparr>file_type := Some Ods\<rparr>
               in case read_file w (input_file st) of
                    Some (OdsFile doc) \<Rightarrow>
                      (True, w\<lparr>ods_docs := ods_docs w @ [doc]\<rparr>,
                       st1\<lparr>ods_doc := Some (length (ods_docs w))\<rparr>)
                  | _ \<Rightarrow> (False, w, st1)))
         else (False, w, st))"

text \<open>
  \<open>detect_vba_macros\<close>: the modules with non-empty code. Without \<open>oletools\<close>, and for a
  file in which the parser finds no VBA project, the list is empty.
\<close>

definition detect_vba_macros :: "world \<Rightarrow> MacroChecker \<Rightarrow> (string \<times> string) list" where
  "detect_vba_macros w st =
     (if \<not> has_oletools w then []
      else case read_file w (input_file st) of
             Some (ExcelFile wb vba) \<Rightarrow>
               map (\<lambda>(vba_filename, vba_code). (''VBA Module: '' @ vba_filename, vba_code))
                 (filter (\<lambda>(vba_filename, vba_code). vba_code \<noteq> []) vba)
           | _ \<Rightarrow> [])"

type_synonym formula_cell = "string \<times> string \<times> string \<times> int \<times> int"

text \<open>\<open>_detect_excel_formulas\<close>: the body of \<open>for cell in row\<close>, then the three loops.\<close>

definition excel_cell_step ::
  "string \<Rightarrow> worksheet \<Rightarrow> nat \<Rightarrow> formula_cell list \<Rightarrow> nat \<Rightarrow>
   (py_exc \<times> formula_cell list) + formula_cell list" where
  "excel_cell_step sheet_name sheet row formula_cells col =
     (case map_of (ws_cells sheet) (rev (letters_loop col []) @ str_nat row) of
        Some cell \<Rightarrow>
          (case xl_value cell of
             StrValue v \<Rightarrow>
               if v \<noteq> [] \<and> startswith v ''='' then
                 (case get_column_letter (int col) of
                    Inl e \<Rightarrow> Inl (e, formula_cells)
                  | Inr letter \<Rightarrow>
                      Inr (formula_cells @
                           [(sheet_name @ ''!'' @ letter @ str_nat row, v, sheet_name,
                             int col, int row)]))
               else Inr formula_cells
           | _ \<Rightarrow> Inr formula_cells)
      | None \<Rightarrow> Inr formula_cells)"

definition excel_row_step ::
  "string \<Rightarrow> worksheet \<Rightarrow> formula_cell list \<Rightarrow> nat \<Rightarrow>
   (py_exc \<times> formula_cell list) + formula_cell list" where
  "excel_row_step sheet_name sheet formula_cells row =
     for_loop (excel_cell_step sheet_name sheet row) [1 ..< Suc (ws_max_column sheet)]
       formula_cells"

definition excel_sheet_step ::
  "formula_cell list \<Rightarrow> string \<times> worksheet \<Rightarrow> (py_exc \<times> formula_cell list) + formula_cell list" where
  "excel_sheet_step formula_cells named_sheet =
     for_loop (excel_row_step (fst named_sheet) (snd named_sheet))
       [1 ..< Suc (ws_max_row (snd named_sheet))] formula_cells"

definition detect_excel_formulas :: "xl_workbook \<Rightarrow> py_exc + formula_cell list" where
  "detect_excel_formulas wb =
     (case for_loop excel_sheet_step wb [] of Inl (e, _) \<Rightarrow> Inl e | Inr cells \<Rightarrow> Inr cells)"

text \<open>
  \<open>_detect_ods_formulas\<close>. The state of \<open>for cell in cells\<close> is \<open>(col_num, formula_cells)\<close>.
  \<open>large_repeat\<close> is the test that ends in \<open>continue\<close>: the attribute is a non-empty
  string, \<open>int\<close> parses it, and the count is above 100.
\<close>

definition large_repeat :: "ods_cell \<Rightarrow> int option" where
  "large_repeat cell =
     (case numbercolumnsrepeated cell of
        None \<Rightarrow> None
      | Some repeat \<Rightarrow>
          if repeat = [] then None
          else (case py_int repeat of
                  None \<Rightarrow> None
                | Some repeat_count \<Rightarrow> if repeat_count > 100 then Some repeat_count else None))"

definition ods_cell_step ::
  "string \<Rightarrow> int \<Rightarrow> int \<times> formula_cell list \<Rightarrow> ods_cell \<Rightarrow>
   (py_exc \<times> int \<times> formula_cell list) + (int \<times> formula_cell list)" where
  "ods_cell_step sheet_name row_num s cell =
     (let col_num = fst s + 1; formula_cells = snd s
      in case large_repeat cell of
           Some repeat_count \<Rightarrow> Inr (col_num + (repeat_count - 1), formula_cells)
         | None \<Rightarrow>
             (case formula cell of
                None \<Rightarrow> Inr (col_num, formula_cells)
              | Some f \<Rightarrow>
                  if f = [] then Inr (col_num, formula_cells)
                  else (case get_column_letter col_num of
                          Inl e \<Rightarrow> Inl (e, col_num, formula_cells)
                        | Inr col_letter \<Rightarrow>
                            Inr (col_num,
                                 formula_cells @
                                 [(sheet_name @ ''!'' @ col_letter @ str_int row_num, f,
                                   sheet_name, col_num, row_num)]))))"

definition ods_row_step ::
  "string \<Rightarrow> int \<times> formula_cell list \<Rightarrow> ods_cell list \<Rightarrow>
   (py_exc \<times> int \<times> formula_cell list) + (int \<times> formula_cell list)" where
  "ods_row_step sheet_name s cells =
     (let row_num = fst s + 1
      in case for_loop (ods_cell_step sheet_name row_num) cells (0, snd s) of
           Inl (e, _, formula_cells) \<Rightarrow> Inl (e, row_num, formula_cells)
         | Inr (_, formula_cells) \<Rightarrow> Inr (row_num, formula_cells))"

definition sheet_name_of :: "ods_table \<Rightarrow> string" where
  "sheet_name_of table =
     (case table_name table of None \<Rightarrow> ''Sheet'' | Some n \<Rightarrow> if n = [] then ''Sheet'' else n)"

definition ods_table_step ::
  "formula_cell list \<Rightarrow> ods_table \<Rightarrow> (py_exc \<times> formula_cell list) + formula_cell list" where
  "ods_table_step formula_cells table =
     (case for_loop (ods_row_step (sheet_name_of table)) (table_rows table) (0, formula_cells) of
        Inl (e, _, cells) \<Rightarrow> Inl (e, cells)
      | Inr (_, cells) \<Rightarrow> Inr cells)"

definition detect_ods_formulas :: "ods_document \<Rightarrow> py_exc + formula_cell list" where
  "detect_ods_formulas doc =
     (case for_loop ods_table_step (tables doc) [] of Inl (e, _) \<Rightarrow> Inl e | Inr cells \<Rightarrow> Inr cells)"

text \<open>
  \<open>detect_formula_cells\<close>: the document is read through the checker's reference. A
  missing document (\<open>None\<close>) raises \<open>AttributeError\<close> on the first attribute access.
\<close>

definition detect_formula_cells :: "world \<Rightarrow> MacroChecker \<Rightarrow> py_exc + formula_cell list" where
  "detect_formula_cells w st =
     (case file_type st of
        Some Excel \<Rightarrow>
          (case workbook st of
             None \<Rightarrow> Inl (PyException ''NoneType object has no attribute sheetnames'')
           | Some r \<Rightarrow>
               if r < length (workbooks w) then detect_excel_formulas (workbooks w ! r)
               else Inl (PyException ''dangling reference''))
      | Some Ods \<Rightarrow>
          (case ods_doc st of
             None \<Rightarrow> Inl (PyException ''NoneType object has no attribute spreadsheet'')
           | Some r \<Rightarrow>
               if r < length (ods_docs w) then detect_ods_formulas (ods_docs w ! r)
               else Inl (PyException ''dangling reference''))
      | None \<Rightarrow> Inr [])"

text \<open>
  \<open>scan_file\<close>. The classifier is indexed by the item number of the request, so that two
  requests with the same prompt may get different replies. The two loop bodies first
  count the item, then classify, then append the finding.
\<close>

definition scan_vba_step ::
  "(int \<Rightarrow> string \<Rightarrow> reply_stream) \<Rightarrow> MacroChecker \<Rightarrow> string \<times> string \<Rightarrow>
   (py_exc \<times> MacroChecker) + MacroChecker" where
  "scan_vba_step classifier st macro =
     (let st1 = st\<lparr>item_counter := item_counter st + 1\<rparr>
      in case analyze_code_with_claude (classifier (item_counter st1)) (snd macro) (fst macro) of
           Inl e \<Rightarrow> Inl (e, st1)
         | Inr (s, a) \<Rightarrow>
             Inr (st1\<lparr>findings := findings st1 @
                    [\<lparr>item_number = item_counter st1, location = fst macro, code = snd macro,
                      score = s, analysis = a, cell_reference = None\<rparr>]\<rparr>))"

definition scan_formula_step ::
  "(int \<Rightarrow> string \<Rightarrow> reply_stream) \<Rightarrow> MacroChecker \<Rightarrow> formula_cell \<Rightarrow>
   (py_exc \<times> MacroChecker) + MacroChecker" where
  "scan_formula_step classifier st fc =
     (case fc of (loc, f, sheet_name, col, row) \<Rightarrow>
        (let st1 = st\<lparr>item_counter := item_counter st + 1\<rparr>
         in case analyze_code_with_claude (classifier (item_counter st1)) f loc of
              Inl e \<Rightarrow> Inl (e, st1)
            | Inr (s, a) \<Rightarrow>
                (case get_column_letter col of
                   Inl e \<Rightarrow> Inl (e, st1)
                 | Inr col_letter \<Rightarrow>
                     Inr (st1\<lparr>findings := findings st1 @
                            [\<lparr>item_number = item_counter st1, location = loc, code = f,
                              score = s, analysis = a,
                              cell_reference = Some (sheet_name, col_letter, row)\<rparr>]\<rparr>))))"

definition scan_file ::
  "(int \<Rightarrow> string \<Rightarrow> reply_stream) \<Rightarrow> world \<Rightarrow> MacroChecker \<Rightarrow>
   (py_exc + bool) \<times> world \<times> MacroChecker" where
  "scan_file classifier w st =
     (case load_spreadsheet w st of
        (loaded, w1, st1) \<Rightarrow>
          if \<not> loaded then (Inr False, w1, st1)
          else
            (case for_loop (scan_vba_step classifier) (detect_vba_macros w1 st1) st1 of
               Inl (e, st2) \<Rightarrow> (Inl e, w1, st2)
             | Inr st2 \<Rightarrow>
                 (case detect_formula_cells w1 st2 of
                    Inl e \<Rightarrow> (Inl e, w1, st2)
                  | Inr formula_cells \<Rightarrow>
                      (case for_loop (scan_formula_step classifier) formula_cells st2 of
                         Inl (e, st3) \<Rightarrow> (Inl e, w1, st3)
                       | Inr st3 \<Rightarrow> (Inr True, w1, st3)))))"

section \<open>The report\<close>

text \<open>
  \<open>datetime.now()\<close> is an input of the model: the reading of the local clock when the
  report is generated. \<open>strftime\<close> is the format \<open>"%Y-%m-%d %H:%M:%S"\<close>, zero-padded.
\<close>

record clock_reading =
  clk_year :: nat
  clk_month :: nat
  clk_day :: nat
  clk_hour :: nat
  clk_minute :: nat
  clk_second :: nat
  clk_microsecond :: nat

definition zero_pad :: "nat \<Rightarrow> nat \<Rightarrow> string" where
  "zero_pad width n = replicate (width - length (str_nat n)) (CHR ''0'') @ str_nat n"

definition strftime :: "clock_reading \<Rightarrow> string" where
  "strftime now =
     zero_pad 4 (clk_year now) @ ''-'' @ zero_pad 2 (clk_month now) @ ''-'' @
     zero_pad 2 (clk_day now) @ '' '' @ zero_pad 2 (clk_hour now) @ '':'' @
     zero_pad 2 (clk_minute now) @ '':'' @ zero_pad 2 (clk_second now)"

definition count_findings :: "(MacroFinding \<Rightarrow> bool) \<Rightarrow> MacroFinding list \<Rightarrow> int" where
  "count_findings P fs = int (length (filter P fs))"

definition report_header :: "clock_reading \<Rightarrow> MacroChecker \<Rightarrow> string" where
  "report_header now st =
     ''# Macro Security Analysis Report'' @ [newline] @
     [newline] @
     ''**File:** '' @ path_name (input_file st) @ [newline] @
     ''**Scan Date:** '' @ strftime now @ [newline] @
     ''**Total Items Found:** '' @ str_int (int (length (findings st))) @ [newline] @
     ''**Removal Threshold:** '' @ str_int (remove_threshold st) @ [newline] @
     [newline] @
     ''## Summary'' @ [newline] @
     [newline]"

definition report_summary :: "MacroChecker \<Rightarrow> string" where
  "report_summary st =
     ''- **Malicious (1-3):** '' @
       str_int (count_findings (\<lambda>f. score f \<le> 3) (findings st)) @ [newline] @
     ''- **Suspicious (4-6):** '' @
       str_int (count_findings (\<lambda>f. 4 \<le> score f \<and> score f \<le> 6) (findings st)) @ [newline] @
     ''- **Potentially Risky (7-9):** '' @
       str_int (count_findings (\<lambda>f. 7 \<le> score f \<and> score f \<le> 9) (findings st)) @ [newline] @
     ''- **Safe (10):** '' @
       str_int (count_findings (\<lambda>f. score f = 10) (findings st)) @ [newline] @
     ''- **Items to be removed (score < '' @ str_int (remove_threshold st) @ ''):** '' @
       str_int (count_findings (\<lambda>f. score f < remove_threshold st) (findings st)) @
       [newline] @ [newline]"

text \<open>What one pass of \<open>for finding in sorted(...)\<close> appends to the report.\<close>

definition report_entry :: "MacroFinding \<Rightarrow> string" where
  "report_entry finding =
     ''### Item #'' @ str_int (item_number finding) @ '': '' @ location finding @
       [newline] @ [newline] @
     ''**Score:** '' @ str_int (score finding) @ ''/10'' @ [newline] @ [newline] @
     ''**Analysis:** '' @ analysis finding @ [newline] @ [newline] @
     ''**Code:**'' @ [newline] @ ''```'' @ [newline] @ take 500 (code finding) @
     (if length (code finding) > 500 then [newline] @ ''... (truncated)'' else []) @
     [newline] @ ''```'' @ [newline] @ [newline] @
     ''---'' @ [newline] @ [newline]"

text \<open>
  \<open>generate_markdown_report\<close>. \<open>sorted(self.findings, key=lambda x: x.score)\<close> is a stable
  sort on the score, which \<open>sort_key score\<close> is as well.
\<close>

definition generate_markdown_report :: "clock_reading \<Rightarrow> MacroChecker \<Rightarrow> string" where
  "generate_markdown_report now st =
     foldl (\<lambda>report finding. report @ report_entry finding)
       (report_header now st @ report_summary st @
        ''## Detailed Findings'' @ [newline] @ [newline])
       (sort_key score (findings st))"

section \<open>The sanitizer\<close>

text \<open>
  What a sanitizer call gives back: the value it returns and the value of its local
  counter \<open>items_removed\<close>, which the code only prints.
\<close>

record sanitize_outcome =
  returned :: bool
  items_removed :: int

definition placeholder :: "int \<Rightarrow> string" where
  "placeholder n = ''CODE REMOVED: Item #'' @ str_int n"

text \<open>
  \<open>finding.score < self.remove_threshold and finding.cell_reference\<close>: a 3-tuple is
  truthy, \<open>None\<close> is not.
\<close>

definition to_redact :: "int \<Rightarrow> MacroFinding \<Rightarrow> bool" where
  "to_redact threshold finding \<longleftrightarrow>
     score finding < threshold \<and> cell_reference finding \<noteq> None"

subsection \<open>Excel\<close>

text \<open>
  \<open>sheet[f"{col_letter}{row}"]\<close> is the cell with that coordinate, created empty when the
  sheet has none. The model covers the references that \<open>scan_file\<close> builds (one to three
  letters \<open>A\<close> to \<open>Z\<close> and a row from 1 on) and takes every other key as an exception.
\<close>

definition empty_cell :: xl_cell where
  "empty_cell = \<lparr>xl_value = NoValue, xl_fill = None\<rparr>"

definition valid_cell_key :: "string \<Rightarrow> int \<Rightarrow> bool" where
  "valid_cell_key col_letter row \<longleftrightarrow>
     1 \<le> row \<and> col_letter \<noteq> [] \<and> length col_letter \<le> 3 \<and>
     list_all (\<lambda>c. 65 \<le> (of_char c :: nat) \<and> (of_char c :: nat) \<le> 90) col_letter"

definition set_sheet :: "string \<Rightarrow> worksheet \<Rightarrow> xl_workbook \<Rightarrow> xl_workbook" where
  "set_sheet sheet_name sheet wb =
     map (\<lambda>named. if fst named = sheet_name then (sheet_name, sheet) else named) wb"

definition redact_excel_step ::
  "int \<Rightarrow> xl_workbook \<times> int \<Rightarrow> MacroFinding \<Rightarrow>
   (py_exc \<times> xl_workbook \<times> int) + (xl_workbook \<times> int)" where
  "redact_excel_step threshold s finding =
     (if to_redact threshold finding then
        (case cell_reference finding of
           None \<Rightarrow> Inr s
         | Some (sheet_name, col_letter, row) \<Rightarrow>
             (case map_of (fst s) sheet_name of
                None \<Rightarrow> Inl (PyException (''Worksheet '' @ sheet_name @ '' does not exist.''), s)
              | Some sheet \<Rightarrow>
                  if \<not> valid_cell_key col_letter row
                  then Inl (PyException ''invalid coordinate'', s)
                  else
                    (let key = col_letter @ str_int row;
                         cell = (case map_of (ws_cells sheet) key of None \<Rightarrow> empty_cell | Some c \<Rightarrow> c);
                         cell' = cell\<lparr>xl_value := StrValue (placeholder (item_number finding)),
                                      xl_fill := Some ''FFFF00''\<rparr>
                     in Inr (set_sheet sheet_name
                               (sheet\<lparr>ws_cells := AList.update key cell' (ws_cells sheet)\<rparr>) (fst s),
                             snd s + 1))))
      else Inr s)"

text \<open>
  \<open>_create_sanitized_excel\<close>: the input file is loaded into a new object, the loop
  changes that object, and \<open>save\<close> writes it to the file that \<open>output_file\<close> names, with no
  test whether that is the input file. \<open>load_workbook\<close> without \<open>keep_vba\<close> drops the VBA
  project, so the saved file has none.
\<close>

definition create_sanitized_excel ::
  "world \<Rightarrow> MacroChecker \<Rightarrow> path \<Rightarrow> sanitize_outcome \<times> world" where
  "create_sanitized_excel w st output_file =
     (case read_file w (input_file st) of
        Some (ExcelFile wb vba) \<Rightarrow>
          (case for_loop (redact_excel_step (remove_threshold st)) (findings st) (wb, 0) of
             Inl (e, output_wb, n) \<Rightarrow>
               (\<lparr>returned = False, items_removed = n\<rparr>,
                w\<lparr>workbooks := workbooks w @ [output_wb]\<rparr>)
           | Inr (output_wb, n) \<Rightarrow>
               (\<lparr>returned = True, items_removed = n\<rparr>,
                write_file (w\<lparr>workbooks := workbooks w @ [output_wb]\<rparr>) output_file
                  (ExcelFile output_wb [])))
      | _ \<Rightarrow> (\<lparr>returned = False, items_removed = 0\<rparr>, w))"

subsection \<open>ODS\<close>

text \<open>The dictionary \<open>cells_to_sanitize\<close>, filled by the loop over the findings.\<close>

type_synonym sanitize_map = "string \<times> int \<Rightarrow> (string \<times> int) list option"

definition add_to_sanitize :: "int \<Rightarrow> sanitize_map \<Rightarrow> MacroFinding \<Rightarrow> sanitize_map" where
  "add_to_sanitize threshold m finding =
     (if to_redact threshold finding then
        (case cell_reference finding of
           None \<Rightarrow> m
         | Some (sheet_name, col_letter, row) \<Rightarrow>
             m((sheet_name, row) \<mapsto>
               (case m (sheet_name, row) of None \<Rightarrow> [] | Some l \<Rightarrow> l) @
               [(col_letter, item_number finding)]))
      else m)"

definition cells_to_sanitize :: "int \<Rightarrow> MacroFinding list \<Rightarrow> sanitize_map" where
  "cells_to_sanitize threshold fs = foldl (add_to_sanitize threshold) Map.empty fs"

text \<open>
  The body of \<open>for target_col, item_num in cells_to_sanitize[key]\<close>; the state is the cell
  and \<open>items_removed\<close>. \<open>removeAttribute\<close> deletes the attribute from the element's
  dictionary and raises \<open>KeyError\<close> when the cell has none.
\<close>

definition redact_ods_step ::
  "string \<Rightarrow> ods_cell \<times> int \<Rightarrow> string \<times> int \<Rightarrow> (py_exc \<times> ods_cell \<times> int) + (ods_cell \<times> int)" where
  "redact_ods_step col_letter s target =
     (if col_letter = fst target then
        (case formula (fst s) of
           None \<Rightarrow> Inl (PyException ''KeyError'', s)
         | Some f \<Rightarrow>
             Inr ((fst s)\<lparr>formula := None, paragraphs := [placeholder (snd target)],
                          stylename := Some ''YellowBackground''\<rparr>,
                  snd s + 1))
      else Inr s)"

text \<open>
  The body of \<open>for cell in cells\<close> of the sanitizer; the state is \<open>col_num\<close>, the cells
  already walked (as they are now) and \<open>items_removed\<close>.
\<close>

definition sanitize_cell_step ::
  "sanitize_map \<Rightarrow> string \<Rightarrow> int \<Rightarrow> int \<times> ods_cell list \<times> int \<Rightarrow> ods_cell \<Rightarrow>
   (py_exc \<times> int \<times> ods_cell list \<times> int) + (int \<times> ods_cell list \<times> int)" where
  "sanitize_cell_step m sheet_name row_num s cell =
     (case s of (col0, walked, n) \<Rightarrow>
        (let col_num = col0 + 1
         in case m (sheet_name, row_num) of
              None \<Rightarrow> Inr (col_num, walked @ [cell], n)
            | Some targets \<Rightarrow>
                (case get_column_letter col_num of
                   Inl e \<Rightarrow> Inl (e, col_num, walked @ [cell], n)
                 | Inr col_letter \<Rightarrow>
                     (case for_loop (redact_ods_step col_letter) targets (cell, n) of
                        Inl (e, cell', n') \<Rightarrow> Inl (e, col_num, walked @ [cell'], n')
                      | Inr (cell', n') \<Rightarrow> Inr (col_num, walked @ [cell'], n')))))"

definition sanitize_row_step ::
  "sanitize_map \<Rightarrow> string \<Rightarrow> int \<times> ods_cell list list \<times> int \<Rightarrow> ods_cell list \<Rightarrow>
   (py_exc \<times> int \<times> ods_cell list list \<times> int) + (int \<times> ods_cell list list \<times> int)" where
  "sanitize_row_step m sheet_name s cells =
     (case s of (row0, walked, n) \<Rightarrow>
        (let row_num = row0 + 1
         in case for_loop (sanitize_cell_step m sheet_name row_num) cells (0, [], n) of
              Inl (e, _, cells', n') \<Rightarrow> Inl (e, row_num, walked @ [cells'], n')
            | Inr (_, cells', n') \<Rightarrow> Inr (row_num, walked @ [cells'], n')))"

definition sanitize_table_step ::
  "sanitize_map \<Rightarrow> ods_table list \<times> int \<Rightarrow> ods_table \<Rightarrow>
   (py_exc \<times> ods_table list \<times> int) + (ods_table list \<times> int)" where
  "sanitize_table_step m s table =
     (case for_loop (sanitize_row_step m (sheet_name_of table)) (table_rows table)
             (0, [], snd s) of
        Inl (e, _, rows', n') \<Rightarrow> Inl (e, fst s @ [table\<lparr>table_rows := rows'\<rparr>], n')
      | Inr (_, rows', n') \<Rightarrow> Inr (fst s @ [table\<lparr>table_rows := rows'\<rparr>], n'))"

text \<open>
  \<open>_create_sanitized_ods\<close>: \<open>shutil.copy2\<close> writes the copy (and raises when source and
  target are the same file, however the two paths are written, or the source is
  missing), \<open>load_odf\<close> loads the copy into a new object, the loops change that object,
  and \<open>save\<close> writes it over the copy, without the automatic styles that nothing refers
  to. An exception after the copy leaves the unchanged copy at \<open>output_file\<close>.
\<close>

definition create_sanitized_ods ::
  "world \<Rightarrow> MacroChecker \<Rightarrow> path \<Rightarrow> sanitize_outcome \<times> world" where
  "create_sanitized_ods w st output_file =
     (if \<not> has_odfpy w then (\<lparr>returned = False, items_removed = 0\<rparr>, w)
      else
        (case read_file w (input_file st) of
           None \<Rightarrow> (\<lparr>returned = False, items_removed = 0\<rparr>, w)
         | Some content \<Rightarrow>
             if same_file w (input_file st) output_file
             then (\<lparr>returned = False, items_removed = 0\<rparr>, w)
             else
               (let w1 = write_file w output_file content
                in case content of
                     OdsFile doc \<Rightarrow>
                       (let output_doc =
                              doc\<lparr>automaticstyles := automaticstyles doc @ [''YellowBackground'']\<rparr>;
                            m = cells_to_sanitize (remove_threshold st) (findings st)
                        in case for_loop (sanitize_table_step m) (tables output_doc) ([], 0) of
                             Inl (e, tables', n) \<Rightarrow>
                               (\<lparr>returned = False, items_removed = n\<rparr>,
                                w1\<lparr>ods_docs := ods_docs w1 @ [output_doc\<lparr>tables := tables'\<rparr>]\<rparr>)
                           | Inr (tables', n) \<Rightarrow>
                               (\<lparr>returned = True, items_removed = n\<rparr>,
                                write_file
                                  (w1\<lparr>ods_docs := ods_docs w1 @ [output_doc\<lparr>tables := tables'\<rparr>]\<rparr>)
                                  output_file
                                  (OdsFile (saved_document (output_doc\<lparr>tables := tables'\<rparr>)))))
                   | _ \<Rightarrow> (\<lparr>returned = False, items_removed = 0\<rparr>, w1))))"

text \<open>\<open>create_sanitized_copy\<close>: the dispatch on \<open>file_type\<close>.\<close>

definition create_sanitized_copy ::
  "world \<Rightarrow> MacroChecker \<Rightarrow> path \<Rightarrow> sanitize_outcome \<times> world" where
  "create_sanitized_copy w st output_file =
     (case file_type st of
        Some Excel \<Rightarrow> create_sanitized_excel w st output_file
      | Some Ods \<Rightarrow> create_sanitized_ods w st output_file
      | None \<Rightarrow> (\<lparr>returned = False, items_removed = 0\<rparr>, w))"

section \<open>Notions used in the statements\<close>

text \<open>
  The score that one line of a reply sets: the clamped integer after the marker, when
  the line starts with \<open>SCORE:\<close> and \<open>int\<close> parses the rest. \<open>parsed_scores\<close> lists, in
  the order in which the loops meet them, the scores set by the lines of all text blocks
  of all assistant messages.
\<close>

definition clamp_score :: "int \<Rightarrow> int" where
  "clamp_score n = max 1 (min 10 n)"

definition score_of_line :: "string \<Rightarrow> int option" where
  "score_of_line line =
     (if startswith line ''SCORE:''
      then map_option clamp_score (py_int (strip (replace line ''SCORE:'' [])))
      else None)"

fun block_lines :: "content_block \<Rightarrow> string list" where
  "block_lines (TextBlock t) = split (strip t) [newline]"
| "block_lines OtherBlock = []"

fun message_lines :: "message \<Rightarrow> string list" where
  "message_lines (AssistantMessage content) = concat (map block_lines content)"
| "message_lines OtherMessage = []"

definition parsed_scores :: "message list \<Rightarrow> int list" where
  "parsed_scores messages = List.map_filter score_of_line (concat (map message_lines messages))"

definition last_or :: "'a \<Rightarrow> 'a list \<Rightarrow> 'a" where
  "last_or d xs = (if xs = [] then d else last xs)"

definition scores_in_range :: "MacroChecker \<Rightarrow> bool" where
  "scores_in_range st \<longleftrightarrow> (\<forall>f \<in> set (findings st). 1 \<le> score f \<and> score f \<le> 10)"

text \<open>
  The order of the report's entries that the statements speak of: by score, and by item
  number among equal scores. A list of findings is in discovery order when its item
  numbers increase along the list; \<open>numbered_up_to_counter\<close> adds that no item number is
  above the checker's counter.
\<close>

definition entry_before :: "MacroFinding \<Rightarrow> MacroFinding \<Rightarrow> bool" where
  "entry_before a b \<longleftrightarrow>
     score a < score b \<or> (score a = score b \<and> item_number a < item_number b)"

definition in_discovery_order :: "MacroFinding list \<Rightarrow> bool" where
  "in_discovery_order fs \<longleftrightarrow> sorted_wrt (\<lambda>a b. item_number a < item_number b) fs"

definition numbered_up_to_counter :: "MacroChecker \<Rightarrow> bool" where
  "numbered_up_to_counter st \<longleftrightarrow>
     in_discovery_order (findings st) \<and>
     list_all (\<lambda>f. item_number f \<le> item_counter st) (findings st)"

section \<open>Example inputs\<close>

text \<open>
  The files of the examples: \<open>in.ods\<close> is file 0 and \<open>in.xlsx\<close> file 1, each also reached
  by a second path through a directory \<open>sub\<close>; the output paths name the files 2 and 3.
\<close>

definition ex_locate :: "path \<Rightarrow> nat" where
  "ex_locate p =
     (if p = [''in.ods''] \<or> p = [''sub'', ''..'', ''in.ods''] then 0
      else if p = [''in.xlsx''] \<or> p = [''sub'', ''..'', ''in.xlsx''] then 1
      else if p = [''out.ods''] then 2
      else if p = [''out.xlsx''] then 3
      else 4)"

text \<open>
  An ODS document with one table \<open>S\<close> of one row: a run of 500 repeated empty cells, then
  a formula cell. A second document whose only cell is a run of 500 cells that carries a
  formula.
\<close>

definition ex_pad_cell :: ods_cell where
  "ex_pad_cell =
     \<lparr>numbercolumnsrepeated = Some ''500'', formula = None, stylename = None, paragraphs = []\<rparr>"

definition ex_formula_cell :: ods_cell where
  "ex_formula_cell =
     \<lparr>numbercolumnsrepeated = None, formula = Some ''=X()'', stylename = None,
      paragraphs = [''1'']\<rparr>"

definition ex_repeated_formula_cell :: ods_cell where
  "ex_repeated_formula_cell =
     \<lparr>numbercolumnsrepeated = Some ''500'', formula = Some ''=X()'', stylename = None,
      paragraphs = [''1'']\<rparr>"

definition ex_ods_doc :: ods_document where
  "ex_ods_doc =
     \<lparr>tables = [\<lparr>table_name = Some ''S'', table_rows = [[ex_pad_cell, ex_formula_cell]]\<rparr>],
      automaticstyles = [], styles_used_elsewhere = []\<rparr>"

definition ex_repeated_formula_doc :: ods_document where
  "ex_repeated_formula_doc =
     \<lparr>tables = [\<lparr>table_name = Some ''S'', table_rows = [[ex_repeated_formula_cell]]\<rparr>],
      automaticstyles = [], styles_used_elsewhere = []\<rparr>"

definition ex_ods_world :: world where
  "ex_ods_world =
     \<lparr>locate = ex_locate, files = [0 \<mapsto> OdsFile ex_ods_doc], workbooks = [], ods_docs = [],
      has_oletools = True, has_odfpy = True\<rparr>"

text \<open>A row with a run of three repeated empty cells before the formula cell.\<close>

definition ex_small_run_row :: "ods_cell list" where
  "ex_small_run_row =
     [\<lparr>numbercolumnsrepeated = Some ''3'', formula = None, stylename = None, paragraphs = []\<rparr>,
      ex_formula_cell]"

text \<open>Replies of the classifier: a well-formed one, and streams that show the parsing.\<close>

definition ex_malicious_reply :: "int \<Rightarrow> string \<Rightarrow> reply_stream" where
  "ex_malicious_reply n p =
     ([AssistantMessage [TextBlock (''SCORE: 1'' @ [newline] @ ''ANALYSIS: bad'')]], None)"

definition ex_out_of_range_reply :: "int \<Rightarrow> string \<Rightarrow> reply_stream" where
  "ex_out_of_range_reply n p =
     ([AssistantMessage [TextBlock (''SCORE: 99'' @ [newline] @ ''ANALYSIS: fine'')]], None)"

definition ex_no_score_reply :: "string \<Rightarrow> reply_stream" where
  "ex_no_score_reply p = ([AssistantMessage [TextBlock ''I cannot tell.'']], None)"

definition ex_two_scores_text :: string where
  "ex_two_scores_text = ''SCORE: 2'' @ [newline] @ ''SCORE: 9'' @ [newline] @ ''ANALYSIS: ok''"

definition ex_two_scores_reply :: "string \<Rightarrow> reply_stream" where
  "ex_two_scores_reply p = ([AssistantMessage [TextBlock ex_two_scores_text]], None)"



text \<open>
  The scan of the ODS example with a classifier that scores everything 1, and the
  sanitized copy made from it with the threshold 5.
\<close>

definition ex_ods_scan :: "(py_exc + bool) \<times> world \<times> MacroChecker" where
  "ex_ods_scan = scan_file ex_malicious_reply ex_ods_world (new_checker [''in.ods''] 5)"

definition ex_ods_sanitized :: "sanitize_outcome \<times> world" where
  "ex_ods_sanitized =
     create_sanitized_copy (fst (snd ex_ods_scan)) (snd (snd ex_ods_scan)) [''out.ods'']"

text \<open>
  An Excel workbook with the formulas \<open>=X()\<close> in \<open>A1\<close> and \<open>=Y()\<close> in \<open>A2\<close> of its sheet
  \<open>S\<close>, its scan with the same classifier and the sanitized copy.
\<close>

definition ex_xl_sheet :: worksheet where
  "ex_xl_sheet =
     \<lparr>ws_max_row = 2, ws_max_column = 1,
      ws_cells = [(''A1'', \<lparr>xl_value = StrValue ''=X()'', xl_fill = None\<rparr>),
                  (''A2'', \<lparr>xl_value = StrValue ''=Y()'', xl_fill = None\<rparr>)]\<rparr>"

definition ex_xl_world :: world where
  "ex_xl_world =
     \<lparr>locate = ex_locate, files = [1 \<mapsto> ExcelFile [(''S'', ex_xl_sheet)] []],
      workbooks = [],
      ods_docs = [], has_oletools = True, has_odfpy = True\<rparr>"

definition ex_xl_scan :: "(py_exc + bool) \<times> world \<times> MacroChecker" where
  "ex_xl_scan = scan_file ex_malicious_reply ex_xl_world (new_checker [''in.xlsx''] 5)"

definition ex_xl_sanitized :: "sanitize_outcome \<times> world" where
  "ex_xl_sanitized =
     create_sanitized_copy (fst (snd ex_xl_scan)) (snd (snd ex_xl_scan)) [''out.xlsx'']"

text \<open>The same two calls with an output path that is another way to write the input file.\<close>

definition ex_xl_over_input :: "sanitize_outcome \<times> world" where
  "ex_xl_over_input =
     create_sanitized_copy (fst (snd ex_xl_scan)) (snd (snd ex_xl_scan))
       [''sub'', ''..'', ''in.xlsx'']"

definition ex_ods_over_input :: "sanitize_outcome \<times> world" where
  "ex_ods_over_input =
     create_sanitized_copy (fst (snd ex_ods_scan)) (snd (snd ex_ods_scan))
       [''sub'', ''..'', ''in.ods'']"

text \<open>Clock readings and a checker with four findings, two of score 8 and two of score 3.\<close>

definition ex_clock :: clock_reading where
  "ex_clock =
     \<lparr>clk_year = 2024, clk_month = 1, clk_day = 2, clk_hour = 3, clk_minute = 4,
      clk_second = 5, clk_microsecond = 0\<rparr>"

definition ex_clock_later :: clock_reading where
  "ex_clock_later = ex_clock\<lparr>clk_second := 6\<rparr>"

definition ex_clock_same_second :: clock_reading where
  "ex_clock_same_second = ex_clock\<lparr>clk_microsecond := 250\<rparr>"

definition ex_finding :: "int \<Rightarrow> int \<Rightarrow> MacroFinding" where
  "ex_finding n s =
     \<lparr>item_number = n, location = ''S!A'' @ str_int n, code = ''=X()'', score = s,
      analysis = ''text'', cell_reference = Some (''S'', ''A'', n)\<rparr>"

definition ex_report_checker :: MacroChecker where
  "ex_report_checker =
     (new_checker [''dir'', ''book.xlsx''] 5)
       \<lparr>findings := [ex_finding 1 8, ex_finding 2 3, ex_finding 3 8, ex_finding 4 3]\<rparr>"

definition ex_empty_checker :: MacroChecker where
  "ex_empty_checker = new_checker [''dir'', ''book.xlsx''] 5"

definition ex_moved_checker :: MacroChecker where
  "ex_moved_checker =
     ex_report_checker\<lparr>input_file := [''elsewhere'', ''book.xlsx''], item_counter := 4,
                        file_type := Some Excel\<rparr>"

section \<open>Properties of the classifier adapter\<close>

text \<open>
  \<open>text.split("ANALYSIS:")[1]\<close> is read only when \<open>"ANALYSIS:" in text\<close>; the split then
  has at least two parts, so the index is in range.
\<close>

lemma split_not_empty: "sep \<noteq> [] \<Longrightarrow> split s sep \<noteq> []"
  by (induction s sep rule: split.induct) (auto split: list.splits)

lemma split_contains_length:
  "contains s sep \<Longrightarrow> sep \<noteq> [] \<Longrightarrow> 2 \<le> length (split s sep)"
proof (induction s sep rule: split.induct)
  case (1 sep)
  then show ?case by simp
next
  case (2 c cs sep)
  show ?case
  proof (cases "startswith (c # cs) sep")
    case True
    then show ?thesis
      using 2 split_not_empty [of sep "drop (length sep - 1) cs"]
      by (cases "split (drop (length sep - 1) cs) sep") simp_all
  next
    case False
    then have "contains cs sep" using 2 by simp
    then have "2 \<le> length (split cs sep)" using 2 False by simp
    then show ?thesis
      using False 2 by (cases "split cs sep") simp_all
  qed
qed

lemma last_or_append: "last_or (last_or d xs) ys = last_or d (xs @ ys)"
  by (simp add: last_or_def)

lemma map_filter_append:
  "List.map_filter f (xs @ ys) = List.map_filter f xs @ List.map_filter f ys"
  by (simp add: List.map_filter_def)

lemma parse_line_fst:
  "fst (parse_line s l) = (case score_of_line l of Some v \<Rightarrow> v | None \<Rightarrow> fst s)"
  by (cases s) (simp add: score_of_line_def clamp_score_def split: option.splits)

lemma foldl_parse_line_fst:
  "fst (foldl parse_line s ls) = last_or (fst s) (List.map_filter score_of_line ls)"
proof (induction ls arbitrary: s)
  case Nil
  show ?case by (simp add: last_or_def List.map_filter_def)
next
  case (Cons l ls)
  show ?case
    by (cases "score_of_line l")
       (simp_all add: Cons.IH parse_line_fst last_or_def List.map_filter_def)
qed

lemma process_block_fst:
  "fst (process_block s b) = last_or (fst s) (List.map_filter score_of_line (block_lines b))"
proof (cases b)
  case (TextBlock t)
  obtain sc an where parsed: "foldl parse_line s (split (strip t) [newline]) = (sc, an)"
    by (cases "foldl parse_line s (split (strip t) [newline])")
  have "fst (process_block s b) = sc"
    using TextBlock parsed by simp
  moreover have "sc = fst (foldl parse_line s (split (strip t) [newline]))"
    using parsed by simp
  ultimately show ?thesis
    using TextBlock by (simp add: foldl_parse_line_fst)
next
  case OtherBlock
  then show ?thesis by (simp add: last_or_def List.map_filter_def)
qed

lemma foldl_process_block_fst:
  "fst (foldl process_block s bs) =
   last_or (fst s) (List.map_filter score_of_line (concat (map block_lines bs)))"
proof (induction bs arbitrary: s)
  case Nil
  show ?case by (simp add: last_or_def List.map_filter_def)
next
  case (Cons b bs)
  show ?case
    by (simp add: Cons.IH process_block_fst last_or_append map_filter_append)
qed

lemma process_message_fst:
  "fst (process_message s m) = last_or (fst s) (List.map_filter score_of_line (message_lines m))"
  by (cases m) (simp_all add: foldl_process_block_fst last_or_def List.map_filter_def)

lemma foldl_process_message_fst:
  "fst (foldl process_message s ms) = last_or (fst s) (parsed_scores ms)"
proof (induction ms arbitrary: s)
  case Nil
  show ?case by (simp add: last_or_def parsed_scores_def List.map_filter_def)
next
  case (Cons m ms)
  have "parsed_scores (m # ms) =
        List.map_filter score_of_line (message_lines m) @ parsed_scores ms"
    by (simp add: parsed_scores_def map_filter_append)
  then show ?case
    by (simp add: Cons.IH process_message_fst last_or_append)
qed

lemma parsed_scores_range: "v \<in> set (parsed_scores ms) \<Longrightarrow> 1 \<le> v \<and> v \<le> 10"
  by (auto simp: parsed_scores_def List.map_filter_def score_of_line_def clamp_score_def
           split: if_splits)

lemma last_or_range:
  "1 \<le> d \<and> d \<le> (10::int) \<Longrightarrow>
   1 \<le> last_or d (parsed_scores ms) \<and> last_or d (parsed_scores ms) \<le> 10"
  using parsed_scores_range [of "last (parsed_scores ms)" ms]
  by (auto simp: last_or_def)

text \<open>
  The score that \<open>analyze_code_with_claude\<close> returns is the one set by the last line that
  sets one, and the default when no line does.
\<close>

lemma analyze_score:
  assumes "analyze_code_with_claude query c l = Inr (s, a)"
  shows "s = last_or default_score (parsed_scores (fst (query (prompt c l))))"
proof -
  obtain ms failure where q: "query (prompt c l) = (ms, failure)"
    by (cases "query (prompt c l)")
  obtain sc an where f: "foldl process_message (default_score, default_analysis) ms = (sc, an)"
    by (cases "foldl process_message (default_score, default_analysis) ms")
  have "sc = last_or default_score (parsed_scores ms)"
    using foldl_process_message_fst [of "(default_score, default_analysis)" ms] f by simp
  moreover have "s = sc"
    using assms q f
    by (auto simp: analyze_code_with_claude_def split: option.splits py_exc.splits)
  ultimately show ?thesis using q by simp
qed

lemma analyze_range:
  assumes "analyze_code_with_claude query c l = Inr (s, a)"
  shows "1 \<le> s \<and> s \<le> 10"
  using analyze_score [OF assms] last_or_range [of default_score]
  by (simp add: default_score_def)


section \<open>Properties of the scan\<close>

lemma for_loop_invariant:
  assumes "P s"
    and "\<And>s x s'. P s \<Longrightarrow> body s x = Inr s' \<Longrightarrow> P s'"
    and "\<And>s x e s'. P s \<Longrightarrow> body s x = Inl (e, s') \<Longrightarrow> P s'"
  shows "case for_loop body xs s of Inl (e, s') \<Rightarrow> P s' | Inr s' \<Rightarrow> P s'"
  using assms(1)
proof (induction xs arbitrary: s)
  case Nil
  then show ?case by simp
next
  case (Cons x xs)
  show ?case
  proof (cases "body s x")
    case (Inl es)
    then show ?thesis
      using assms(3) [of s x "fst es" "snd es"] Cons.prems by (cases es) simp
  next
    case (Inr s')
    then show ?thesis
      using Cons.IH [of s'] assms(2) [of s x s'] Cons.prems by simp
  qed
qed

lemma scan_vba_step_Inr:
  assumes "scan_vba_step classifier st m = Inr st'"
  shows "\<exists>s a. analyze_code_with_claude (classifier (item_counter st + 1)) (snd m) (fst m) =
                 Inr (s, a) \<and>
           findings st' = findings st @
             [\<lparr>item_number = item_counter st + 1, location = fst m, code = snd m,
               score = s, analysis = a, cell_reference = None\<rparr>] \<and>
           item_counter st' = item_counter st + 1"
  using assms by (auto simp: scan_vba_step_def Let_def split: sum.splits)

lemma scan_vba_step_Inl:
  assumes "scan_vba_step classifier st m = Inl (e, st')"
  shows "findings st' = findings st \<and> item_counter st' = item_counter st + 1"
  using assms by (auto simp: scan_vba_step_def Let_def split: sum.splits)

lemma scan_formula_step_Inr:
  assumes "scan_formula_step classifier st fc = Inr st'"
  shows "\<exists>s a ref.
           analyze_code_with_claude (classifier (item_counter st + 1)) (fst (snd fc)) (fst fc) =
             Inr (s, a) \<and>
           findings st' = findings st @
             [\<lparr>item_number = item_counter st + 1, location = fst fc, code = fst (snd fc),
               score = s, analysis = a, cell_reference = Some ref\<rparr>] \<and>
           item_counter st' = item_counter st + 1"
  using assms by (auto simp: scan_formula_step_def Let_def split: sum.splits prod.splits)

lemma scan_formula_step_Inl:
  assumes "scan_formula_step classifier st fc = Inl (e, st')"
  shows "findings st' = findings st \<and> item_counter st' = item_counter st + 1"
  using assms by (auto simp: scan_formula_step_def Let_def split: sum.splits prod.splits)

lemma load_spreadsheet_findings:
  "load_spreadsheet w st = (b, w', st') \<Longrightarrow>
   findings st' = findings st \<and> item_counter st' = item_counter st"
  by (auto simp: load_spreadsheet_def Let_def split: if_splits option.splits file_content.splits)

text \<open>
  A property of the checker that loading keeps and both loop bodies keep, whether they
  return or raise, holds of the checker that \<open>scan_file\<close> leaves behind.
\<close>

lemma scan_file_invariant:
  assumes "P st"
    and load: "\<And>b w1 st1. load_spreadsheet w st = (b, w1, st1) \<Longrightarrow> P st1"
    and vba: "\<And>s m s'. P s \<Longrightarrow> scan_vba_step classifier s m = Inr s' \<Longrightarrow> P s'"
             "\<And>s m e s'. P s \<Longrightarrow> scan_vba_step classifier s m = Inl (e, s') \<Longrightarrow> P s'"
    and fml: "\<And>s m s'. P s \<Longrightarrow> scan_formula_step classifier s m = Inr s' \<Longrightarrow> P s'"
             "\<And>s m e s'. P s \<Longrightarrow> scan_formula_step classifier s m = Inl (e, s') \<Longrightarrow> P s'"
    and "scan_file classifier w st = (r, w', st')"
  shows "P st'"
proof -
  obtain b w1 st1 where l: "load_spreadsheet w st = (b, w1, st1)"
    by (cases "load_spreadsheet w st")
  have r1: "P st1" by (rule load [OF l])
  have v: "case for_loop (scan_vba_step classifier) (detect_vba_macros w1 st1) st1 of
               Inl (e, s') \<Rightarrow> P s' | Inr s' \<Rightarrow> P s'"
    by (rule for_loop_invariant [where P = P, OF r1]) (erule (1) vba)+
  show ?thesis
  proof (cases "for_loop (scan_vba_step classifier) (detect_vba_macros w1 st1) st1")
    case (Inl es)
    then show ?thesis
      using assms(7) l v r1 by (auto simp: scan_file_def split: if_splits)
  next
    case (Inr st2)
    then have r2: "P st2" using v by simp
    show ?thesis
    proof (cases "detect_formula_cells w1 st2")
      case (Inl e)
      then show ?thesis
        using assms(7) l Inr r1 r2 by (auto simp: scan_file_def split: if_splits)
    next
      case cells: (Inr cells)
      have fm: "case for_loop (scan_formula_step classifier) cells st2 of
                 Inl (e, s') \<Rightarrow> P s' | Inr s' \<Rightarrow> P s'"
        by (rule for_loop_invariant [where P = P, OF r2]) (erule (1) fml)+
      show ?thesis
        using assms(7) l Inr cells r1 r2 fm
        by (auto simp: scan_file_def split: if_splits sum.splits prod.splits)
    qed
  qed
qed

lemma scan_vba_step_range:
  "scores_in_range st \<Longrightarrow> scan_vba_step classifier st m = Inr st' \<Longrightarrow> scores_in_range st'"
  "scores_in_range st \<Longrightarrow> scan_vba_step classifier st m = Inl (e, st') \<Longrightarrow> scores_in_range st'"
proof -
  assume r: "scores_in_range st" and s: "scan_vba_step classifier st m = Inr st'"
  from scan_vba_step_Inr [OF s] obtain sc a where
    "analyze_code_with_claude (classifier (item_counter st + 1)) (snd m) (fst m) = Inr (sc, a)"
    "findings st' = findings st @
       [\<lparr>item_number = item_counter st + 1, location = fst m, code = snd m,
         score = sc, analysis = a, cell_reference = None\<rparr>]"
    by blast
  then show "scores_in_range st'"
    using r analyze_range [of "classifier (item_counter st + 1)" "snd m" "fst m" sc a]
    by (auto simp: scores_in_range_def)
next
  assume "scores_in_range st" and "scan_vba_step classifier st m = Inl (e, st')"
  then show "scores_in_range st'"
    using scan_vba_step_Inl [of classifier st m e st'] by (simp add: scores_in_range_def)
qed

lemma scan_formula_step_range:
  "scores_in_range st \<Longrightarrow> scan_formula_step classifier st fc = Inr st' \<Longrightarrow> scores_in_range st'"
  "scores_in_range st \<Longrightarrow> scan_formula_step classifier st fc = Inl (e, st') \<Longrightarrow>
   scores_in_range st'"
proof -
  assume r: "scores_in_range st" and s: "scan_formula_step classifier st fc = Inr st'"
  from scan_formula_step_Inr [OF s] obtain sc a ref where
    "analyze_code_with_claude (classifier (item_counter st + 1)) (fst (snd fc)) (fst fc) =
       Inr (sc, a)"
    "findings st' = findings st @
       [\<lparr>item_number = item_counter st + 1, location = fst fc, code = fst (snd fc),
         score = sc, analysis = a, cell_reference = Some ref\<rparr>]"
    by blast
  then show "scores_in_range st'"
    using r analyze_range [of "classifier (item_counter st + 1)" "fst (snd fc)" "fst fc" sc a]
    by (auto simp: scores_in_range_def)
next
  assume "scores_in_range st" and "scan_formula_step classifier st fc = Inl (e, st')"
  then show "scores_in_range st'"
    using scan_formula_step_Inl [of classifier st fc e st'] by (simp add: scores_in_range_def)
qed

lemma scan_file_range:
  assumes "scores_in_range st" and "scan_file classifier w st = (r, w', st')"
  shows "scores_in_range st'"
proof (rule scan_file_invariant [where P = scores_in_range, OF assms(1) _ _ _ _ _ assms(2)])
  show "scores_in_range st1" if "load_spreadsheet w st = (b, w1, st1)" for b w1 st1
    using load_spreadsheet_findings [OF that] assms(1) by (simp add: scores_in_range_def)
qed (erule (1) scan_vba_step_range scan_formula_step_range)+

section \<open>Claims about classification\<close>

text \<open>
  Claim C4. Every finding that a scan leaves in the checker has a score from 1 to 10,
  provided the findings already there had one (a new checker has none); this holds
  whether the scan returns or an exception leaves it. Every classification that returns
  gives a score from 1 to 10, whatever the replies are: when no line of the replies sets
  a score (empty, malformed or without a \<open>SCORE:\<close> line) the score is the midpoint 5, and
  otherwise it is a parsed value clamped into the range.
\<close>

theorem classified_scores_in_range:
  "(scores_in_range st \<and> scan_file classifier w st = (r, w', st') \<longrightarrow>
      (\<forall>f \<in> set (findings st'). 1 \<le> score f \<and> score f \<le> 10)) \<and>
   (analyze_code_with_claude query c l = Inr (s, a) \<longrightarrow>
      1 \<le> s \<and> s \<le> 10 \<and>
      (parsed_scores (fst (query (prompt c l))) = [] \<longrightarrow> s = 5) \<and>
      (parsed_scores (fst (query (prompt c l))) \<noteq> [] \<longrightarrow>
         s \<in> set (parsed_scores (fst (query (prompt c l))))))"
proof (intro conjI impI)
  assume "scores_in_range st \<and> scan_file classifier w st = (r, w', st')"
  then have "scores_in_range st'"
    using scan_file_range by blast
  then show "\<forall>f \<in> set (findings st'). 1 \<le> score f \<and> score f \<le> 10"
    by (simp add: scores_in_range_def)
next
  assume res: "analyze_code_with_claude query c l = Inr (s, a)"
  show "1 \<le> s" and "s \<le> 10"
    using analyze_range [OF res] by simp_all
  show "s = 5" if "parsed_scores (fst (query (prompt c l))) = []"
    using analyze_score [OF res] that by (simp add: last_or_def default_score_def)
  show "s \<in> set (parsed_scores (fst (query (prompt c l))))"
    if "parsed_scores (fst (query (prompt c l))) \<noteq> []"
    using analyze_score [OF res] that by (simp add: last_or_def)
qed

theorem classified_scores_in_range_witness:
  "scores_in_range (new_checker [''in.ods''] 5) \<and>
   map score (findings (snd (snd
     (scan_file ex_out_of_range_reply ex_ods_world (new_checker [''in.ods''] 5))))) = [10] \<and>
   list_all (\<lambda>f. 1 \<le> score f \<and> score f \<le> 10) (findings (snd (snd
     (scan_file ex_out_of_range_reply ex_ods_world (new_checker [''in.ods''] 5))))) \<and>
   parsed_scores (fst (ex_no_score_reply (prompt ''=X()'' ''S!A1''))) = [] \<and>
   analyze_code_with_claude ex_no_score_reply ''=X()'' ''S!A1'' = Inr (5, ''Unable to analyze'')"
proof -
  let ?scan = "scan_file ex_out_of_range_reply ex_ods_world (new_checker [''in.ods''] 5)"
  have fresh: "scores_in_range (new_checker [''in.ods''] 5)"
    by (simp add: scores_in_range_def new_checker_def)
  have run: "?scan = (fst ?scan, fst (snd ?scan), snd (snd ?scan))"
    by simp
  have scored: "map score (findings (snd (snd ?scan))) = [10]"
    by code_simp
  have silent: "parsed_scores (fst (ex_no_score_reply (prompt ''=X()'' ''S!A1''))) = []"
    by code_simp
  have reply: "analyze_code_with_claude ex_no_score_reply ''=X()'' ''S!A1'' =
               Inr (5, ''Unable to analyze'')"
    by code_simp
  show ?thesis
    using classified_scores_in_range
      [of "new_checker [''in.ods''] 5" ex_out_of_range_reply ex_ods_world
          "fst ?scan" "fst (snd ?scan)" "snd (snd ?scan)"
          ex_no_score_reply "''=X()''" "''S!A1''" 5 "''Unable to analyze''"]
      fresh run scored silent reply
    unfolding list_all_iff by blast
qed

text \<open>
  Claim C9, as stated, fails: a reply with the lines \<open>SCORE: 2\<close> and \<open>SCORE: 9\<close>, in this
  order, is given the score 9 of the later line, not the score 2 of the first.
\<close>

theorem first_score_line_counterexample:
  "map score_of_line (split (strip ex_two_scores_text) [newline]) = [Some 2, Some 9, None] \<and>
   analyze_code_with_claude ex_two_scores_reply ''=X()'' ''S!A1'' = Inr (9, ''ok'')"
  by code_simp

text \<open>
  Claim C9, amended. The loop over the lines has no \<open>break\<close>: when several lines of the
  replies start with \<open>SCORE:\<close> and have an integer after the marker, the returned score is
  the clamped value of the last of them.
\<close>

theorem score_from_last_score_line:
  assumes "analyze_code_with_claude query c l = Inr (s, a)"
    and "parsed_scores (fst (query (prompt c l))) \<noteq> []"
  shows "s = last (parsed_scores (fst (query (prompt c l))))"
  using analyze_score [OF assms(1)] assms(2) by (simp add: last_or_def)

theorem score_from_last_score_line_witness:
  "analyze_code_with_claude ex_two_scores_reply ''=X()'' ''S!A1'' = Inr (9, ''ok'') \<and>
   parsed_scores (fst (ex_two_scores_reply (prompt ''=X()'' ''S!A1''))) = [2, 9] \<and>
   (9::int) = last (parsed_scores (fst (ex_two_scores_reply (prompt ''=X()'' ''S!A1''))))"
proof -
  have reply: "analyze_code_with_claude ex_two_scores_reply ''=X()'' ''S!A1'' = Inr (9, ''ok'')"
    by code_simp
  have lines: "parsed_scores (fst (ex_two_scores_reply (prompt ''=X()'' ''S!A1''))) = [2, 9]"
    by code_simp
  have "parsed_scores (fst (ex_two_scores_reply (prompt ''=X()'' ''S!A1''))) \<noteq> []"
    using lines by simp
  from score_from_last_score_line [OF reply this] reply lines show ?thesis
    by simp
qed




section \<open>Properties of the report\<close>

lemma foldl_append_entries:
  "foldl (\<lambda>report finding. report @ g finding) init fs = init @ concat (map g fs)"
  by (induction fs arbitrary: init) simp_all

text \<open>The report is its header, its summary and one entry per finding, sorted on the score.\<close>

lemma report_entries:
  "generate_markdown_report now st =
     report_header now st @ report_summary st @ ''## Detailed Findings'' @ [newline, newline] @
     concat (map report_entry (sort_key score (findings st)))"
  by (simp add: generate_markdown_report_def foldl_append_entries)

text \<open>
  Inserting a finding that was discovered before all findings of a list keeps the order
  by score and item number: the stable sort puts it before the findings of its score.
\<close>

lemma entry_before_insort:
  assumes "sorted_wrt entry_before ys"
    and "\<forall>y \<in> set ys. item_number x < item_number y"
  shows "sorted_wrt entry_before (insort_key score x ys)"
  using assms
proof (induction ys)
  case Nil
  then show ?case by simp
next
  case (Cons y ys)
  show ?case
  proof (cases "score x \<le> score y")
    case True
    have "entry_before x z" if "z \<in> set (y # ys)" for z
    proof -
      have "score y \<le> score z"
        using that Cons.prems(1) by (auto simp: entry_before_def)
      moreover have "item_number x < item_number z"
        using that Cons.prems(2) by auto
      ultimately show ?thesis
        using True by (auto simp: entry_before_def)
    qed
    then show ?thesis
      using True Cons.prems(1) by simp
  next
    case False
    have tail: "sorted_wrt entry_before (insort_key score x ys)"
      using Cons.IH Cons.prems by simp
    have "entry_before y z" if "z \<in> set (insort_key score x ys)" for z
      using that False Cons.prems(1) by (auto simp: set_insort_key entry_before_def)
    then show ?thesis
      using False tail by simp
  qed
qed

lemma sort_key_Cons: "sort_key f (x # xs) = insort_key f x (sort_key f xs)"
  by (simp add: sort_key_def)

lemma entry_before_sort_key:
  "in_discovery_order fs \<Longrightarrow> sorted_wrt entry_before (sort_key score fs)"
proof (induction fs)
  case Nil
  then show ?case by simp
next
  case (Cons f fs)
  then have "sorted_wrt entry_before (sort_key score fs)"
    by (simp add: in_discovery_order_def)
  moreover have "\<forall>y \<in> set (sort_key score fs). item_number f < item_number y"
    using Cons.prems by (simp add: in_discovery_order_def)
  ultimately show ?case
    unfolding sort_key_Cons by (rule entry_before_insort)
qed

text \<open>
  The scan numbers the findings in the order in which it appends them: the list that
  \<open>scan_file\<close> leaves behind is in discovery order whenever the list it started from was
  (as the empty list of a new checker is).
\<close>

lemma numbered_append:
  assumes "numbered_up_to_counter st"
    and "findings st' = findings st @ [f]"
    and "item_number f = item_counter st + 1"
    and "item_counter st' = item_counter st + 1"
  shows "numbered_up_to_counter st'"
  using assms
  by (fastforce simp: numbered_up_to_counter_def in_discovery_order_def sorted_wrt_append
        list_all_iff)

lemma numbered_counter_only:
  assumes "numbered_up_to_counter st"
    and "findings st' = findings st"
    and "item_counter st' = item_counter st + 1"
  shows "numbered_up_to_counter st'"
  using assms
  by (fastforce simp: numbered_up_to_counter_def list_all_iff)

lemma scan_file_numbered:
  assumes "numbered_up_to_counter st" and "scan_file classifier w st = (r, w', st')"
  shows "numbered_up_to_counter st'"
proof (rule scan_file_invariant
    [where P = numbered_up_to_counter, OF assms(1) _ _ _ _ _ assms(2)])
  show "numbered_up_to_counter st1" if "load_spreadsheet w st = (b, w1, st1)" for b w1 st1
    using load_spreadsheet_findings [OF that] assms(1) by (simp add: numbered_up_to_counter_def)
next
  fix s m s'
  assume n: "numbered_up_to_counter s" and step: "scan_vba_step classifier s m = Inr s'"
  from scan_vba_step_Inr [OF step] obtain f where
    "findings s' = findings s @ [f]" "item_number f = item_counter s + 1"
    "item_counter s' = item_counter s + 1"
    by force
  then show "numbered_up_to_counter s'"
    by (rule numbered_append [OF n])
next
  fix s m e s'
  assume n: "numbered_up_to_counter s" and step: "scan_vba_step classifier s m = Inl (e, s')"
  from scan_vba_step_Inl [OF step] show "numbered_up_to_counter s'"
    using numbered_counter_only [OF n] by simp
next
  fix s m s'
  assume n: "numbered_up_to_counter s" and step: "scan_formula_step classifier s m = Inr s'"
  from scan_formula_step_Inr [OF step] obtain f where
    "findings s' = findings s @ [f]" "item_number f = item_counter s + 1"
    "item_counter s' = item_counter s + 1"
    by force
  then show "numbered_up_to_counter s'"
    by (rule numbered_append [OF n])
next
  fix s m e s'
  assume n: "numbered_up_to_counter s" and step: "scan_formula_step classifier s m = Inl (e, s')"
  from scan_formula_step_Inl [OF step] show "numbered_up_to_counter s'"
    using numbered_counter_only [OF n] by simp
qed

lemma scan_file_discovery_order:
  assumes "scan_file classifier w (new_checker p threshold) = (r, w', st')"
  shows "in_discovery_order (findings st')"
proof -
  have "numbered_up_to_counter (new_checker p threshold)"
    by (simp add: numbered_up_to_counter_def in_discovery_order_def new_checker_def)
  from scan_file_numbered [OF this assms] show ?thesis
    by (simp add: numbered_up_to_counter_def)
qed

section \<open>Claims about the report\<close>

text \<open>
  Claim C8. For every list of findings in discovery order (item numbers increasing along
  the list, as in every list that a scan builds), whatever the order of their scores, the
  detailed part of the report is the sequence of the entries of the same findings, sorted
  ascending by score, and by ascending item number among findings of equal score.
\<close>

theorem report_entries_sorted:
  assumes "in_discovery_order (findings st)"
  shows "\<exists>entries.
           generate_markdown_report now st =
             report_header now st @ report_summary st @
             ''## Detailed Findings'' @ [newline, newline] @
             concat (map report_entry entries) \<and>
           mset entries = mset (findings st) \<and>
           sorted_wrt entry_before entries"
  using report_entries [of now st] entry_before_sort_key [OF assms]
  by (intro exI [of _ "sort_key score (findings st)"]) simp

theorem report_entries_sorted_witness:
  "in_discovery_order (findings ex_report_checker) \<and>
   map score (findings ex_report_checker) = [8, 3, 8, 3] \<and>
   map item_number (sort_key score (findings ex_report_checker)) = [2, 4, 1, 3] \<and>
   (\<exists>entries.
      generate_markdown_report ex_clock ex_report_checker =
        report_header ex_clock ex_report_checker @ report_summary ex_report_checker @
        ''## Detailed Findings'' @ [newline, newline] @
        concat (map report_entry entries) \<and>
      mset entries = mset (findings ex_report_checker) \<and>
      sorted_wrt entry_before entries)"
proof -
  have ordered: "in_discovery_order (findings ex_report_checker)"
    by code_simp
  have scores: "map score (findings ex_report_checker) = [8, 3, 8, 3]"
    by code_simp
  have shown: "map item_number (sort_key score (findings ex_report_checker)) = [2, 4, 1, 3]"
    by code_simp
  from report_entries_sorted [OF ordered, of ex_clock] ordered scores shown show ?thesis
    by blast
qed

text \<open>
  Claim C7, as stated, fails: the report contains the reading of the clock at the time of
  the call, so two calls on the same checker, with the same findings, file name and
  threshold, give different texts when the clock has moved on by a second.
\<close>

theorem report_clock_counterexample:
  "generate_markdown_report ex_clock ex_empty_checker \<noteq>
   generate_markdown_report ex_clock_later ex_empty_checker"
  by code_simp

text \<open>
  Claim C7, amended. The call changes nothing (the function only returns the text), and
  the text is determined by the list of findings, the name of the input file, the
  threshold and the reading of the clock at the call as \<open>strftime\<close> formats it: of two
  calls that agree on the findings, the file name and the threshold, whatever else
  differs in the checker, the texts are the same text before and after the timestamp of
  the \<open>Scan Date\<close> line, so they are identical when the formatted readings are equal, and
  different when these differ.
\<close>

theorem report_determined_by_inputs_and_clock:
  assumes "findings st1 = findings st2"
    and "path_name (input_file st1) = path_name (input_file st2)"
    and "remove_threshold st1 = remove_threshold st2"
  shows "(generate_markdown_report now1 st1 = generate_markdown_report now2 st2 \<longleftrightarrow>
            strftime now1 = strftime now2) \<and>
         (\<exists>before after.
            generate_markdown_report now1 st1 =
              before @ ''**Scan Date:** '' @ strftime now1 @ after \<and>
            generate_markdown_report now2 st2 =
              before @ ''**Scan Date:** '' @ strftime now2 @ after)"
proof -
  let ?before = "''# Macro Security Analysis Report'' @ [newline] @ [newline] @
                 ''**File:** '' @ path_name (input_file st1) @ [newline]"
  let ?after = "[newline] @
                ''**Total Items Found:** '' @ str_int (int (length (findings st1))) @ [newline] @
                ''**Removal Threshold:** '' @ str_int (remove_threshold st1) @ [newline] @
                [newline] @ ''## Summary'' @ [newline] @ [newline] @
                report_summary st1 @ ''## Detailed Findings'' @ [newline, newline] @
                concat (map report_entry (sort_key score (findings st1)))"
  have first: "generate_markdown_report now1 st1 =
               ?before @ ''**Scan Date:** '' @ strftime now1 @ ?after"
    by (simp add: report_entries report_header_def)
  have second: "generate_markdown_report now2 st2 =
                ?before @ ''**Scan Date:** '' @ strftime now2 @ ?after"
    using assms by (simp add: report_entries report_header_def report_summary_def)
  have "generate_markdown_report now1 st1 = generate_markdown_report now2 st2 \<longleftrightarrow>
        strftime now1 = strftime now2"
    unfolding first second by simp
  then show ?thesis
    using first second by blast
qed

theorem report_determined_by_inputs_and_clock_witness:
  "findings ex_report_checker = findings ex_moved_checker \<and>
   path_name (input_file ex_report_checker) = path_name (input_file ex_moved_checker) \<and>
   remove_threshold ex_report_checker = remove_threshold ex_moved_checker \<and>
   input_file ex_report_checker \<noteq> input_file ex_moved_checker \<and>
   ex_clock \<noteq> ex_clock_same_second \<and>
   strftime ex_clock = strftime ex_clock_same_second \<and>
   generate_markdown_report ex_clock ex_report_checker =
     generate_markdown_report ex_clock_same_second ex_moved_checker \<and>
   strftime ex_clock \<noteq> strftime ex_clock_later \<and>
   generate_markdown_report ex_clock ex_report_checker \<noteq>
     generate_markdown_report ex_clock_later ex_moved_checker"
proof -
  have a: "findings ex_report_checker = findings ex_moved_checker"
    by (simp add: ex_moved_checker_def)
  have b: "path_name (input_file ex_report_checker) = path_name (input_file ex_moved_checker)"
    by (simp add: ex_moved_checker_def ex_report_checker_def new_checker_def path_name_def)
  have c: "remove_threshold ex_report_checker = remove_threshold ex_moved_checker"
    by (simp add: ex_moved_checker_def)
  have d: "strftime ex_clock = strftime ex_clock_same_second"
    by (simp add: strftime_def ex_clock_same_second_def)
  have e: "ex_clock \<noteq> ex_clock_same_second"
    by (simp add: ex_clock_def ex_clock_same_second_def)
  have f: "input_file ex_report_checker \<noteq> input_file ex_moved_checker"
    by (simp add: ex_moved_checker_def ex_report_checker_def new_checker_def)
  have g: "strftime ex_clock \<noteq> strftime ex_clock_later"
    by code_simp
  from report_determined_by_inputs_and_clock [OF a b c, of ex_clock ex_clock_same_second]
    report_determined_by_inputs_and_clock [OF a b c, of ex_clock ex_clock_later]
    a b c d e f g
  show ?thesis
    by simp
qed

section \<open>Properties of the sanitizer\<close>

text \<open>Reading and writing files through paths.\<close>

lemma locate_write_file: "locate (write_file w p content) = locate w"
  by (simp add: write_file_def)

lemma read_write_file:
  "read_file (write_file w p content) q =
     (if same_file w p q then Some content else read_file w q)"
  by (auto simp: read_file_def write_file_def same_file_def)

lemma files_write_file:
  "files (write_file w p content) i = (if i = locate w p then Some content else files w i)"
  by (simp add: write_file_def)

lemma heaps_write_file:
  "workbooks (write_file w p content) = workbooks w"
  "ods_docs (write_file w p content) = ods_docs w"
  by (simp_all add: write_file_def)

text \<open>
  The guard of both sanitizers: a finding with a score at or above the threshold, or
  without a cell reference, takes no part in the redaction. In the Excel loop it leaves
  the workbook and the counter as they are, in the ODS sanitizer it adds no entry to
  \<open>cells_to_sanitize\<close>.
\<close>

lemma not_to_redact:
  "threshold \<le> score f \<or> cell_reference f = None \<Longrightarrow> \<not> to_redact threshold f"
  by (auto simp: to_redact_def)

lemma redact_excel_step_skip:
  "\<not> to_redact t f \<Longrightarrow> redact_excel_step t s f = Inr s"
  by (simp add: redact_excel_step_def)

lemma add_to_sanitize_skip:
  "\<not> to_redact t f \<Longrightarrow> add_to_sanitize t m f = m"
  by (simp add: add_to_sanitize_def)

text \<open>
  A pass of the Excel loop for a finding below the threshold with a cell reference, when
  it does not raise, leaves the placeholder and the yellow fill in the cell it names.
\<close>

lemma map_of_set_sheet:
  "map_of wb sheet_name = Some sheet \<Longrightarrow>
   map_of (set_sheet sheet_name sheet' wb) sheet_name = Some sheet'"
  by (induction wb) (auto simp: set_sheet_def split: if_splits)

lemma redact_excel_step_redacts:
  assumes "to_redact t f"
    and "cell_reference f = Some (sheet_name, col_letter, row)"
    and "redact_excel_step t (wb, n) f = Inr (wb', n')"
  shows "\<exists>sheet'. map_of wb' sheet_name = Some sheet' \<and>
           map_of (ws_cells sheet') (col_letter @ str_int row) =
             Some \<lparr>xl_value = StrValue (placeholder (item_number f)),
                   xl_fill = Some ''FFFF00''\<rparr>"
proof -
  from assms obtain sheet where
    sheet: "map_of wb sheet_name = Some sheet" and
    wb': "wb' = set_sheet sheet_name
           (sheet\<lparr>ws_cells := AList.update (col_letter @ str_int row)
              ((case map_of (ws_cells sheet) (col_letter @ str_int row) of
                  None \<Rightarrow> empty_cell | Some c \<Rightarrow> c)
               \<lparr>xl_value := StrValue (placeholder (item_number f)),
                xl_fill := Some ''FFFF00''\<rparr>) (ws_cells sheet)\<rparr>) wb"
    by (auto simp: redact_excel_step_def Let_def split: option.splits if_splits)
  show ?thesis
    unfolding wb'
    by (rule exI, rule conjI, rule map_of_set_sheet [OF sheet])
       (simp add: update_conv' empty_cell_def split: option.splits)
qed

text \<open>One pass of the Excel loop counts one cell exactly when the finding is to be redacted.\<close>

lemma redact_excel_step_count:
  "redact_excel_step t s f = Inr s' \<Longrightarrow>
   snd s' = snd s + (if to_redact t f then 1 else 0)"
  by (auto simp: redact_excel_step_def to_redact_def Let_def
           split: if_splits prod.splits option.splits)

lemma redact_excel_loop_count:
  "for_loop (redact_excel_step t) fs s = Inr s' \<Longrightarrow>
   snd s' = snd s + count_findings (to_redact t) fs"
proof (induction fs arbitrary: s)
  case Nil
  then show ?case by (simp add: count_findings_def)
next
  case (Cons f fs)
  from Cons.prems obtain s1 where
    step: "redact_excel_step t s f = Inr s1" and
    rest: "for_loop (redact_excel_step t) fs s1 = Inr s'"
    by (auto split: sum.splits)
  show ?case
    using Cons.IH [OF rest] redact_excel_step_count [OF step]
    by (simp add: count_findings_def)
qed

text \<open>
  The column counters of the two ODS walks. In the extraction a cell advances the counter
  by its repeat count when that count is above 100, and by one otherwise, so also for a
  count from 2 to 100. In the sanitizer every cell advances the counter by one.
\<close>

lemma ods_cell_step_counter:
  "ods_cell_step sheet_name row_num s cell = Inr s' \<Longrightarrow>
   fst s' = fst s + (case large_repeat cell of Some n \<Rightarrow> n | None \<Rightarrow> 1)"
  by (auto simp: ods_cell_step_def Let_def split: option.splits if_splits sum.splits)

lemma small_repeat_not_large:
  "numbercolumnsrepeated cell = Some repeat \<Longrightarrow> py_int repeat = Some n \<Longrightarrow> n \<le> 100 \<Longrightarrow>
   large_repeat cell = None"
  by (simp add: large_repeat_def)

lemma sanitize_cell_step_counter:
  "sanitize_cell_step m sheet_name row_num s cell = Inr s' \<Longrightarrow> fst s' = fst s + 1"
  by (auto simp: sanitize_cell_step_def Let_def split: option.splits prod.splits sum.splits)

text \<open>
  After a run of three repeated cells the formula cell, which is in column \<open>D\<close> of the
  sheet, is recorded as column 2 with the location \<open>S!B1\<close>: the counter counts cell
  elements.
\<close>

lemma small_run_counts_cell_elements:
  "for_loop (ods_cell_step ''S'' 1) ex_small_run_row (0, []) =
     Inr (2, [(''S!B1'', ''=X()'', ''S'', 2, 1)])"
  by code_simp

text \<open>A run of more than 100 cells yields no fragment, with or without a formula.\<close>

lemma large_repeat_skipped:
  "large_repeat cell = Some n \<Longrightarrow>
   ods_cell_step sheet_name row_num (col, formula_cells) cell = Inr (col + n, formula_cells)"
  by (simp add: ods_cell_step_def)

text \<open>
  When the output path is another way to write the input file, the Excel sanitizer
  overwrites the input file with the sanitized copy, and the ODS sanitizer returns
  \<open>False\<close> and changes nothing.
\<close>

lemma excel_output_naming_input_overwrites:
  "same_file (fst (snd ex_xl_scan)) [''in.xlsx''] [''sub'', ''..'', ''in.xlsx''] \<and>
   returned (fst ex_xl_over_input) = True \<and>
   read_file (snd ex_xl_over_input) [''in.xlsx''] \<noteq>
     read_file (fst (snd ex_xl_scan)) [''in.xlsx'']"
  by code_simp

lemma ods_output_naming_input_refused:
  "same_file (fst (snd ex_ods_scan)) [''in.ods''] [''sub'', ''..'', ''in.ods''] \<and>
   returned (fst ex_ods_over_input) = False \<and>
   read_file (snd ex_ods_over_input) [''in.ods''] =
     read_file (fst (snd ex_ods_scan)) [''in.ods'']"
  by code_simp

section \<open>Claims about the sanitizer\<close>

text \<open>
  Claim C5. When the output path does not lead to the input file (by whatever path it is
  written), a call of \<open>create_sanitized_copy\<close>, whatever it returns, leaves the input
  file as it was and leaves every document object that existed before the call as it
  was, among them the one the checker holds from the extraction: the sanitizer works on
  an object that it allocates itself. When the call returns \<open>True\<close>, the copy is in the
  file that the output path names and no other file has changed.
\<close>

theorem sanitize_leaves_original:
  assumes "\<not> same_file w (input_file st) output_file"
    and "create_sanitized_copy w st output_file = (out, w')"
  shows "read_file w' (input_file st) = read_file w (input_file st) \<and>
         locate w' = locate w \<and>
         (\<forall>r < length (workbooks w). workbooks w' ! r = workbooks w ! r) \<and>
         (\<forall>r < length (ods_docs w). ods_docs w' ! r = ods_docs w ! r) \<and>
         (returned out \<longrightarrow>
            (\<exists>content. read_file w' output_file = Some content) \<and>
            (\<forall>i. i \<noteq> locate w output_file \<longrightarrow> files w' i = files w i))"
proof (cases "file_type st")
  case None
  then show ?thesis
    using assms by (auto simp: create_sanitized_copy_def)
next
  case (Some kind)
  show ?thesis
  proof (cases kind)
    case Excel
    then have call: "create_sanitized_excel w st output_file = (out, w')"
      using assms(2) Some by (simp add: create_sanitized_copy_def)
    show ?thesis
      using call assms(1)
      by (auto simp: create_sanitized_excel_def read_file_def write_file_def same_file_def
            nth_append
          split: option.splits file_content.splits sum.splits prod.splits)
  next
    case Ods
    then have call: "create_sanitized_ods w st output_file = (out, w')"
      using assms(2) Some by (simp add: create_sanitized_copy_def)
    show ?thesis
      using call assms(1)
      by (auto simp: create_sanitized_ods_def read_file_def write_file_def same_file_def
            Let_def nth_append
          split: option.splits file_content.splits sum.splits prod.splits if_splits)
  qed
qed

theorem sanitize_leaves_original_witness:
  "\<not> same_file (fst (snd ex_xl_scan)) (input_file (snd (snd ex_xl_scan))) [''out.xlsx''] \<and>
   workbook (snd (snd ex_xl_scan)) = Some 0 \<and>
   0 < length (workbooks (fst (snd ex_xl_scan))) \<and>
   returned (fst ex_xl_sanitized) = True \<and>
   items_removed (fst ex_xl_sanitized) = 2 \<and>
   read_file (snd ex_xl_sanitized) [''in.xlsx''] =
     read_file (fst (snd ex_xl_scan)) [''in.xlsx''] \<and>
   workbooks (snd ex_xl_sanitized) ! 0 = workbooks (fst (snd ex_xl_scan)) ! 0 \<and>
   \<not> same_file (fst (snd ex_ods_scan)) (input_file (snd (snd ex_ods_scan))) [''out.ods''] \<and>
   ods_doc (snd (snd ex_ods_scan)) = Some 0 \<and>
   0 < length (ods_docs (fst (snd ex_ods_scan))) \<and>
   returned (fst ex_ods_sanitized) = True \<and>
   read_file (snd ex_ods_sanitized) [''in.ods''] =
     read_file (fst (snd ex_ods_scan)) [''in.ods''] \<and>
   ods_docs (snd ex_ods_sanitized) ! 0 = ods_docs (fst (snd ex_ods_scan)) ! 0 \<and>
   read_file (fst (snd ex_xl_scan)) [''out.xlsx''] = None \<and>
   read_file (snd ex_xl_sanitized) [''out.xlsx''] \<noteq> None \<and>
   read_file (fst (snd ex_ods_scan)) [''out.ods''] = None \<and>
   read_file (snd ex_ods_sanitized) [''out.ods''] \<noteq> None"
proof -
  let ?w = "fst (snd ex_xl_scan)" and ?st = "snd (snd ex_xl_scan)"
  have inp: "input_file ?st = [''in.xlsx'']"
    by code_simp
  have other: "\<not> same_file ?w (input_file ?st) [''out.xlsx'']"
    by code_simp
  have held: "workbook ?st = Some 0"
    by code_simp
  have allocated: "0 < length (workbooks ?w)"
    by code_simp
  have outcome: "returned (fst ex_xl_sanitized) = True \<and> items_removed (fst ex_xl_sanitized) = 2"
    by code_simp
  have call: "create_sanitized_copy ?w ?st [''out.xlsx''] =
              (fst ex_xl_sanitized, snd ex_xl_sanitized)"
    by (simp add: ex_xl_sanitized_def)
  let ?v = "fst (snd ex_ods_scan)" and ?su = "snd (snd ex_ods_scan)"
  have ods: "input_file ?su = [''in.ods''] \<and> ods_doc ?su = Some 0 \<and>
             0 < length (ods_docs ?v) \<and> returned (fst ex_ods_sanitized) = True"
    by code_simp
  have other_ods: "\<not> same_file ?v (input_file ?su) [''out.ods'']"
    by code_simp
  have call_ods: "create_sanitized_copy ?v ?su [''out.ods''] =
                  (fst ex_ods_sanitized, snd ex_ods_sanitized)"
    by (simp add: ex_ods_sanitized_def)
  have written:
    "read_file ?w [''out.xlsx''] = None \<and> read_file (snd ex_xl_sanitized) [''out.xlsx''] \<noteq> None \<and>
     read_file ?v [''out.ods''] = None \<and> read_file (snd ex_ods_sanitized) [''out.ods''] \<noteq> None"
    by code_simp
  from sanitize_leaves_original [OF other call] sanitize_leaves_original [OF other_ods call_ods]
    inp other held allocated outcome ods other_ods written
  show ?thesis
    by simp
qed

text \<open>
  Claim C6, as stated, fails: the call returns the flag \<open>True\<close>, not a count. In the Excel
  example two findings are below the threshold and have a cell reference, two cells are
  redacted, and the returned value is \<open>True\<close> (which as a number is 1).
\<close>

theorem returned_count_counterexample:
  "returned (fst ex_xl_sanitized) = True \<and>
   count_findings (to_redact (remove_threshold (snd (snd ex_xl_scan))))
     (findings (snd (snd ex_xl_scan))) = 2 \<and>
   (of_bool (returned (fst ex_xl_sanitized)) :: int) \<noteq>
     count_findings (to_redact (remove_threshold (snd (snd ex_xl_scan))))
       (findings (snd (snd ex_xl_scan)))"
  by code_simp

text \<open>
  Claim C6, amended. \<open>create_sanitized_copy\<close> returns a flag: \<open>True\<close> when the sanitized
  copy was written. The number of redacted cells is the local counter \<open>items_removed\<close>,
  which the code prints; for an Excel document, when the call returns \<open>True\<close>, the copy
  is at the output path and the counter equals the number of findings with a score below
  the threshold and a cell reference.
\<close>

theorem excel_items_removed_count:
  assumes "file_type st = Some Excel"
    and "create_sanitized_copy w st output_file = (out, w')"
    and "returned out"
  shows "items_removed out = count_findings (to_redact (remove_threshold st)) (findings st) \<and>
         (\<exists>wb vba. read_file w' output_file = Some (ExcelFile wb vba))"
proof -
  from assms obtain wb vba output_wb n where
    inp: "read_file w (input_file st) = Some (ExcelFile wb vba)" and
    loop: "for_loop (redact_excel_step (remove_threshold st)) (findings st) (wb, 0) =
           Inr (output_wb, n)" and
    out: "out = \<lparr>returned = True, items_removed = n\<rparr>" and
    w': "w' = write_file (w\<lparr>workbooks := workbooks w @ [output_wb]\<rparr>) output_file
               (ExcelFile output_wb [])"
    by (auto simp: create_sanitized_copy_def create_sanitized_excel_def
             split: option.splits file_content.splits sum.splits prod.splits)
  from redact_excel_loop_count [OF loop] out w' show ?thesis
    by (simp add: read_write_file same_file_def)
qed

theorem excel_items_removed_count_witness:
  "file_type (snd (snd ex_xl_scan)) = Some Excel \<and>
   returned (fst ex_xl_sanitized) \<and>
   items_removed (fst ex_xl_sanitized) = 2 \<and>
   count_findings (to_redact (remove_threshold (snd (snd ex_xl_scan))))
     (findings (snd (snd ex_xl_scan))) = 2"
proof -
  let ?w = "fst (snd ex_xl_scan)" and ?st = "snd (snd ex_xl_scan)"
  have kind: "file_type ?st = Some Excel"
    by code_simp
  have ok: "returned (fst ex_xl_sanitized)"
    by code_simp
  have removed: "items_removed (fst ex_xl_sanitized) = 2"
    by code_simp
  have call: "create_sanitized_copy ?w ?st [''out.xlsx''] =
              (fst ex_xl_sanitized, snd ex_xl_sanitized)"
    by (simp add: ex_xl_sanitized_def)
  from excel_items_removed_count [OF kind call ok] kind ok removed show ?thesis
    by simp
qed

text \<open>
  Claim C1 on the ODS example (a run of 500 empty cells, then a formula cell). The scan
  gives one finding, for the cell that the extraction calls \<open>SG1\<close>, with score 1 and a cell
  reference. With the threshold 5 the sanitizer returns \<open>True\<close> and redacts nothing: the
  copy at the output path is the original document, the formula cell with its formula.
  The sanitizer counts the formula cell as column 2 (\<open>B\<close>), the extraction as column 501.
\<close>

theorem ods_finding_after_large_run_not_redacted:
  "fst ex_ods_scan = Inr True \<and>
   findings (snd (snd ex_ods_scan)) =
     [\<lparr>item_number = 1, location = ''S!SG1'', code = ''=X()'', score = 1, analysis = ''bad'',
       cell_reference = Some (''S'', ''SG'', 1)\<rparr>] \<and>
   remove_threshold (snd (snd ex_ods_scan)) = 5 \<and>
   returned (fst ex_ods_sanitized) = True \<and>
   items_removed (fst ex_ods_sanitized) = 0 \<and>
   read_file (snd ex_ods_sanitized) [''out.ods''] = Some (OdsFile ex_ods_doc) \<and>
   map (map formula) (concat (map table_rows (tables ex_ods_doc))) = [[None, Some ''=X()'']]"
  by code_simp

text \<open>
  Claim C3 on a document whose only cell is a run of 500 cells with a formula: the
  extraction yields no fragment. The same cell without the repeat attribute is extracted.
\<close>

theorem large_run_with_formula_skipped:
  "formula ex_repeated_formula_cell = Some ''=X()'' \<and>
   numbercolumnsrepeated ex_repeated_formula_cell = Some ''500'' \<and>
   detect_ods_formulas ex_repeated_formula_doc = Inr [] \<and>
   detect_ods_formulas
     (ex_repeated_formula_doc\<lparr>tables :=
        [\<lparr>table_name = Some ''S'', table_rows = [[ex_formula_cell]]\<rparr>]\<rparr>) =
     Inr [(''S!A1'', ''=X()'', ''S'', 1, 1)]"
  by code_simp

text \<open>
  Claim C10 on the row of the ODS example. Over the run of 500 cells the counter of the
  extraction goes from 0 to 500 and the counter of the sanitizer from 0 to 1; after the
  formula cell they stand at 501 and at 2.
\<close>

theorem large_run_counters_differ:
  "for_loop (ods_cell_step ''S'' 1) [ex_pad_cell] (0, []) = Inr (500, []) \<and>
   for_loop (sanitize_cell_step
       (cells_to_sanitize 5 (findings (snd (snd ex_ods_scan)))) ''S'' 1)
     [ex_pad_cell] (0, [], 0) = Inr (1, [ex_pad_cell], 0) \<and>
   for_loop (ods_cell_step ''S'' 1) [ex_pad_cell, ex_formula_cell] (0, []) =
     Inr (501, [(''S!SG1'', ''=X()'', ''S'', 501, 1)]) \<and>
   for_loop (sanitize_cell_step
       (cells_to_sanitize 5 (findings (snd (snd ex_ods_scan)))) ''S'' 1)
     [ex_pad_cell, ex_formula_cell] (0, [], 0) = Inr (2, [ex_pad_cell, ex_formula_cell], 0)"
  by code_simp

end
